theory Spec2Isabelle
  imports Complex_Main "HOL-Library.AList" "HOL-Library.Sublist" "HOL-Library.Log_Nat"
begin

section \<open>Values, exceptions and library functions\<close>

text \<open>
  The handlers receive the order envelope as a Python dictionary decoded from JSON.
  A JSON object is kept as an association list with string keys (the key order of the
  dictionary), looked up with \<open>map_of\<close>.

  Numbers: a Python \<open>int\<close> is \<open>JInt\<close>; a JSON number with a fraction and a DynamoDB
  \<open>Decimal\<close> are \<open>JFloat\<close>, holding the decimal value as a rational. The validator
  is given twice. The definitions under the source's names compute on these rationals
  exactly; they are what the control flow, the messages and the envelopes are proved on.
  The section on double precision gives the two tolerance comparisons again with the
  rounding of IEEE binary64, which is what decides a difference of one cent. Infinities
  and NaN are in neither.
\<close>

datatype json =
    JNull
  | JBool bool
  | JInt int
  | JFloat rat
  | JStr string
  | JList "json list"
  | JObj "(string \<times> json) list"

type_synonym dict = "(string \<times> json) list"

text \<open>
  Exceptions of the Python run time and of the DynamoDB client. \<open>ClientError\<close> stands
  for whatever \<open>products_table.get_item\<close> raises, with its text.
\<close>

datatype pyexc = TypeError | ValueError | KeyError | ClientError string

text \<open>
  Library functions whose results the handlers only pass along are parameters:
  parsing a string as a number, \<open>str\<close> of a value that is not a string, the format
  \<open>:.2f\<close>, \<open>str\<close> of an exception, and SHA-256.
\<close>

record builtins =
  int_of_str :: "string \<Rightarrow> int option"
  float_of_str :: "string \<Rightarrow> rat option"
  str_other :: "json \<Rightarrow> string"
  format_2f :: "rat \<Rightarrow> string"
  str_of_exc :: "pyexc \<Rightarrow> string"
  sha256_hexdigest :: "string \<Rightarrow> string"

text \<open>\<open>str(x)\<close> and \<open>f"{x}"\<close>: a string is inserted as it is.\<close>

fun py_str :: "builtins \<Rightarrow> json \<Rightarrow> string" where
  "py_str bi (JStr s) = s"
| "py_str bi v = str_other bi v"

text \<open>
  \<open>k in x\<close> for a string \<open>k\<close>: key membership in a dictionary, substring test on a
  string, element test on a list, \<open>TypeError\<close> on anything else.
\<close>

fun py_in :: "string \<Rightarrow> json \<Rightarrow> pyexc + bool" where
  "py_in k (JObj d) = Inr (map_of d k \<noteq> None)"
| "py_in k (JStr s) = Inr (sublist k s)"
| "py_in k (JList xs) = Inr (JStr k \<in> set xs)"
| "py_in k JNull = Inl TypeError"
| "py_in k (JBool b) = Inl TypeError"
| "py_in k (JInt n) = Inl TypeError"
| "py_in k (JFloat r) = Inl TypeError"

text \<open>\<open>x[k]\<close> for a string \<open>k\<close>: only a dictionary can be indexed by a string.\<close>

fun py_getitem :: "json \<Rightarrow> string \<Rightarrow> pyexc + json" where
  "py_getitem (JObj d) k = (case map_of d k of None \<Rightarrow> Inl KeyError | Some v \<Rightarrow> Inr v)"
| "py_getitem JNull k = Inl TypeError"
| "py_getitem (JBool b) k = Inl TypeError"
| "py_getitem (JInt n) k = Inl TypeError"
| "py_getitem (JFloat r) k = Inl TypeError"
| "py_getitem (JStr s) k = Inl TypeError"
| "py_getitem (JList xs) k = Inl TypeError"

text \<open>\<open>d.get(k, default)\<close> on a dictionary.\<close>

definition dict_get :: "dict \<Rightarrow> string \<Rightarrow> json \<Rightarrow> json" where
  "dict_get d k dflt = (case map_of d k of None \<Rightarrow> dflt | Some v \<Rightarrow> v)"

text \<open>Iteration \<open>for x in v\<close>: list elements, characters of a string, keys of a dictionary.\<close>

fun py_iter :: "json \<Rightarrow> pyexc + json list" where
  "py_iter (JList xs) = Inr xs"
| "py_iter (JStr s) = Inr (map (\<lambda>c. JStr [c]) s)"
| "py_iter (JObj d) = Inr (map (\<lambda>kv. JStr (fst kv)) d)"
| "py_iter JNull = Inl TypeError"
| "py_iter (JBool b) = Inl TypeError"
| "py_iter (JInt n) = Inl TypeError"
| "py_iter (JFloat r) = Inl TypeError"

text \<open>\<open>int(x)\<close>: truncation towards zero on a float, \<open>True\<close> is 1.\<close>

fun py_int :: "builtins \<Rightarrow> json \<Rightarrow> pyexc + int" where
  "py_int bi (JInt n) = Inr n"
| "py_int bi (JBool b) = Inr (if b then 1 else 0)"
| "py_int bi (JFloat r) = Inr (if 0 \<le> r then \<lfloor>r\<rfloor> else \<lceil>r\<rceil>)"
| "py_int bi (JStr s) = (case int_of_str bi s of None \<Rightarrow> Inl ValueError | Some n \<Rightarrow> Inr n)"
| "py_int bi JNull = Inl TypeError"
| "py_int bi (JList xs) = Inl TypeError"
| "py_int bi (JObj d) = Inl TypeError"

text \<open>\<open>float(x)\<close>.\<close>

fun py_float :: "builtins \<Rightarrow> json \<Rightarrow> pyexc + rat" where
  "py_float bi (JInt n) = Inr (of_int n)"
| "py_float bi (JBool b) = Inr (if b then 1 else 0)"
| "py_float bi (JFloat r) = Inr r"
| "py_float bi (JStr s) = (case float_of_str bi s of None \<Rightarrow> Inl ValueError | Some r \<Rightarrow> Inr r)"
| "py_float bi JNull = Inl TypeError"
| "py_float bi (JList xs) = Inl TypeError"
| "py_float bi (JObj d) = Inl TypeError"

text \<open>\<open>sep.join(xs)\<close>.\<close>

fun join :: "string \<Rightarrow> string list \<Rightarrow> string" where
  "join sep [] = []"
| "join sep [x] = x"
| "join sep (x # y # ys) = x @ sep @ join sep (y # ys)"

section \<open>The order validator\<close>

text \<open>
  \<open>products_table.get_item(Key={'productId': pid})\<close>: the call raises, or answers
  without an \<open>Item\<close> (\<open>None\<close>), or answers with the product's attributes.
\<close>

type_synonym products_table = "json \<Rightarrow> pyexc + dict option"

text \<open>
  A validation message is kept as its template with the values of its holes;
  \<open>render\<close> below is the f-string. The handler never looks into a message, it only
  stores and joins them.
\<close>

datatype verror =
    MissingRequiredField string
  | ItemsMustBeArray
  | OrderMustContainItem
  | MissingProductId int
  | MissingQuantity int
  | QuantityMustBePositive int
  | InvalidQuantity int
  | ProductNotFound int json
  | InsufficientStock int json int int
  | PriceMismatch int json rat rat
  | ErrorValidatingProduct int pyexc
  | TotalAmountMismatch rat rat
  | ErrorCalculatingTotal pyexc

fun render :: "builtins \<Rightarrow> verror \<Rightarrow> string" where
  "render bi (MissingRequiredField field) = ''Missing required field: '' @ field"
| "render bi ItemsMustBeArray = ''Items must be an array''"
| "render bi OrderMustContainItem = ''Order must contain at least one item''"
| "render bi (MissingProductId n) = ''Item '' @ py_str bi (JInt n) @ '': Missing productId''"
| "render bi (MissingQuantity n) = ''Item '' @ py_str bi (JInt n) @ '': Missing quantity''"
| "render bi (QuantityMustBePositive n) =
     ''Item '' @ py_str bi (JInt n) @ '': Quantity must be positive''"
| "render bi (InvalidQuantity n) = ''Item '' @ py_str bi (JInt n) @ '': Invalid quantity''"
| "render bi (ProductNotFound n pid) =
     ''Item '' @ py_str bi (JInt n) @ '': Product '' @ py_str bi pid @ '' not found''"
| "render bi (InsufficientStock n pid requested available) =
     ''Item '' @ py_str bi (JInt n) @ '': Insufficient stock for '' @ py_str bi pid
       @ '' (requested: '' @ py_str bi (JInt requested)
       @ '', available: '' @ py_str bi (JInt available) @ '')''"
| "render bi (PriceMismatch n pid db_price order_price) =
     ''Item '' @ py_str bi (JInt n) @ '': Price mismatch for '' @ py_str bi pid
       @ '' (expected: '' @ py_str bi (JFloat db_price)
       @ '', received: '' @ py_str bi (JFloat order_price) @ '')''"
| "render bi (ErrorValidatingProduct n e) =
     ''Item '' @ py_str bi (JInt n) @ '': Error validating product - '' @ str_of_exc bi e"
| "render bi (TotalAmountMismatch calculated_total order_total) =
     ''Total amount mismatch: expected '' @ format_2f bi calculated_total
       @ '', received '' @ format_2f bi order_total"
| "render bi (ErrorCalculatingTotal e) = ''Error calculating total: '' @ str_of_exc bi e"

subsection \<open>Phase 1: required fields\<close>

definition required_fields :: "string list" where
  "required_fields = [''orderId'', ''userId'', ''items'', ''totalAmount'']"

text \<open>\<open>field not in order or order[field] is None\<close>\<close>

definition field_missing :: "dict \<Rightarrow> string \<Rightarrow> bool" where
  "field_missing order field \<longleftrightarrow> map_of order field = None \<or> map_of order field = Some JNull"

fun required_fields_loop :: "dict \<Rightarrow> string list \<Rightarrow> verror list \<Rightarrow> verror list" where
  "required_fields_loop order [] errors = errors"
| "required_fields_loop order (field # rest) errors =
     required_fields_loop order rest
       (if field_missing order field then errors @ [MissingRequiredField field] else errors)"

definition validate_required_fields :: "dict \<Rightarrow> verror list" where
  "validate_required_fields order =
     (let errors = required_fields_loop order required_fields []
      in case map_of order ''items'' of
           None \<Rightarrow> errors
         | Some (JList xs) \<Rightarrow>
             if length xs = 0 then errors @ [OrderMustContainItem] else errors
         | Some _ \<Rightarrow> errors @ [ItemsMustBeArray])"

subsection \<open>Phase 2: items against the catalog\<close>

text \<open>
  The stock check of the loop body: only when the catalog record has a \<open>stock\<close>
  attribute. \<open>Inl\<close> is an exception raised inside the \<open>try\<close> block.
\<close>

definition check_stock :: "builtins \<Rightarrow> int \<Rightarrow> json \<Rightarrow> dict \<Rightarrow> int \<Rightarrow> pyexc + verror list" where
  "check_stock bi item_num pid product quantity =
     (case map_of product ''stock'' of
        None \<Rightarrow> Inr []
      | Some s \<Rightarrow>
          (case py_int bi s of
             Inl e \<Rightarrow> Inl e
           | Inr available_stock \<Rightarrow>
               Inr (if available_stock < quantity
                    then [InsufficientStock item_num pid quantity available_stock]
                    else [])))"

text \<open>The price check of the loop body: only when the item has a \<open>price\<close> key.\<close>

definition check_price :: "builtins \<Rightarrow> int \<Rightarrow> json \<Rightarrow> dict \<Rightarrow> dict \<Rightarrow> pyexc + verror list" where
  "check_price bi item_num pid item product =
     (case map_of item ''price'' of
        None \<Rightarrow> Inr []
      | Some p \<Rightarrow>
          (case py_float bi (dict_get product ''price'' (JInt 0)) of
             Inl e \<Rightarrow> Inl e
           | Inr db_price \<Rightarrow>
               (case py_float bi p of
                  Inl e \<Rightarrow> Inl e
                | Inr order_price \<Rightarrow>
                    Inr (if \<bar>db_price - order_price\<bar> > 1 / 100
                         then [PriceMismatch item_num pid db_price order_price]
                         else []))))"

text \<open>
  The second \<open>try\<close> block of the loop body, with its \<open>except Exception\<close>: the errors
  appended before an exception stay in the list. The result is the errors appended and
  the keys passed to \<open>get_item\<close>.
\<close>

definition check_product ::
  "products_table \<Rightarrow> builtins \<Rightarrow> int \<Rightarrow> dict \<Rightarrow> int \<Rightarrow> verror list \<times> json list" where
  "check_product tbl bi item_num item quantity =
     (case py_getitem (JObj item) ''productId'' of
        Inl e \<Rightarrow> ([ErrorValidatingProduct item_num e], [])
      | Inr pid \<Rightarrow>
          (case tbl pid of
             Inl e \<Rightarrow> ([ErrorValidatingProduct item_num e], [pid])
           | Inr None \<Rightarrow> ([ProductNotFound item_num pid], [pid])
           | Inr (Some product) \<Rightarrow>
               (case check_stock bi item_num pid product quantity of
                  Inl e \<Rightarrow> ([ErrorValidatingProduct item_num e], [pid])
                | Inr stock_errors \<Rightarrow>
                    (case check_price bi item_num pid item product of
                       Inl e \<Rightarrow> (stock_errors @ [ErrorValidatingProduct item_num e], [pid])
                     | Inr price_errors \<Rightarrow> (stock_errors @ price_errors, [pid])))))"

text \<open>
  The first \<open>try\<close> block: \<open>int(item['quantity'])\<close>, where indexing an item that is not
  a dictionary raises \<open>TypeError\<close>.
\<close>

definition item_quantity :: "builtins \<Rightarrow> json \<Rightarrow> pyexc + int" where
  "item_quantity bi item =
     (case py_getitem item ''quantity'' of Inl e \<Rightarrow> Inl e | Inr q \<Rightarrow> py_int bi q)"

text \<open>
  One iteration of the loop of \<open>validate_items\<close>, for the item at index \<open>idx\<close>: the
  errors it appends and the catalog keys it requests, or the exception that leaves the
  function (\<open>in\<close> on an item that is no container). Only a dictionary gets past the
  first \<open>try\<close> block, since \<open>item['quantity']\<close> raises \<open>TypeError\<close> on anything
  else; the last case of \<open>checked\<close> is never taken.
\<close>

definition validate_item ::
  "products_table \<Rightarrow> builtins \<Rightarrow> nat \<Rightarrow> json \<Rightarrow> (pyexc + verror list) \<times> json list" where
  "validate_item tbl bi idx item =
     (let item_num = int idx + 1
      in case py_in ''productId'' item of
           Inl e \<Rightarrow> (Inl e, [])
         | Inr has_product_id \<Rightarrow>
             if \<not> has_product_id then (Inr [MissingProductId item_num], [])
             else
               (case py_in ''quantity'' item of
                  Inl e \<Rightarrow> (Inl e, [])
                | Inr has_quantity \<Rightarrow>
                    if \<not> has_quantity then (Inr [MissingQuantity item_num], [])
                    else
                      (case item_quantity bi item of
                         Inl e \<Rightarrow>
                           if e = ValueError \<or> e = TypeError
                           then (Inr [InvalidQuantity item_num], [])
                           else (Inl e, [])
                       | Inr quantity \<Rightarrow>
                           (let quantity_errors =
                                  (if quantity \<le> 0 then [QuantityMustBePositive item_num] else []);
                                checked =
                                  (case item of
                                     JObj d \<Rightarrow> check_product tbl bi item_num d quantity
                                   | _ \<Rightarrow> ([ErrorValidatingProduct item_num TypeError], []))
                            in (Inr (quantity_errors @ fst checked), snd checked)))))"

fun validate_items_loop ::
  "products_table \<Rightarrow> builtins \<Rightarrow> nat \<Rightarrow> json list \<Rightarrow> verror list \<Rightarrow> json list
     \<Rightarrow> (pyexc + verror list) \<times> json list" where
  "validate_items_loop tbl bi idx [] errors calls = (Inr errors, calls)"
| "validate_items_loop tbl bi idx (item # rest) errors calls =
     (case validate_item tbl bi idx item of
        (Inl e, cs) \<Rightarrow> (Inl e, calls @ cs)
      | (Inr es, cs) \<Rightarrow> validate_items_loop tbl bi (Suc idx) rest (errors @ es) (calls @ cs))"

definition validate_items ::
  "products_table \<Rightarrow> builtins \<Rightarrow> json \<Rightarrow> (pyexc + verror list) \<times> json list" where
  "validate_items tbl bi items =
     (case py_iter items of
        Inl e \<Rightarrow> (Inl e, [])
      | Inr xs \<Rightarrow> validate_items_loop tbl bi 0 xs [] [])"

subsection \<open>Phase 3: the total\<close>

text \<open>
  What one item adds to \<open>calculated_total\<close>: nothing (\<open>None\<close>) unless it has both a
  \<open>price\<close> and a \<open>quantity\<close> key, else \<open>float(price) * int(quantity)\<close>.
\<close>

definition item_amount :: "builtins \<Rightarrow> json \<Rightarrow> pyexc + rat option" where
  "item_amount bi item =
     (case py_in ''price'' item of
        Inl e \<Rightarrow> Inl e
      | Inr has_price \<Rightarrow>
          if \<not> has_price then Inr None
          else
            (case py_in ''quantity'' item of
               Inl e \<Rightarrow> Inl e
             | Inr has_quantity \<Rightarrow>
                 if \<not> has_quantity then Inr None
                 else
                   (case py_getitem item ''price'' of
                      Inl e \<Rightarrow> Inl e
                    | Inr p \<Rightarrow>
                        (case py_float bi p of
                           Inl e \<Rightarrow> Inl e
                         | Inr price \<Rightarrow>
                             (case item_quantity bi item of
                                Inl e \<Rightarrow> Inl e
                              | Inr quantity \<Rightarrow> Inr (Some (price * of_int quantity)))))))"

fun total_loop :: "builtins \<Rightarrow> json list \<Rightarrow> rat \<Rightarrow> pyexc + rat" where
  "total_loop bi [] calculated_total = Inr calculated_total"
| "total_loop bi (item # rest) calculated_total =
     (case item_amount bi item of
        Inl e \<Rightarrow> Inl e
      | Inr None \<Rightarrow> total_loop bi rest calculated_total
      | Inr (Some a) \<Rightarrow> total_loop bi rest (calculated_total + a))"

text \<open>The recomputed total of an order: the loop of \<open>validate_total_amount\<close> from 0.0.\<close>

definition calculated_total :: "builtins \<Rightarrow> dict \<Rightarrow> pyexc + rat" where
  "calculated_total bi order =
     (case py_iter (dict_get order ''items'' (JList [])) of
        Inl e \<Rightarrow> Inl e
      | Inr xs \<Rightarrow> total_loop bi xs 0)"

definition validate_total_amount :: "builtins \<Rightarrow> dict \<Rightarrow> verror list" where
  "validate_total_amount bi order =
     (case calculated_total bi order of
        Inl e \<Rightarrow> [ErrorCalculatingTotal e]
      | Inr computed \<Rightarrow>
          (case py_float bi (dict_get order ''totalAmount'' (JInt 0)) of
             Inl e \<Rightarrow> [ErrorCalculatingTotal e]
           | Inr order_total \<Rightarrow>
               if \<bar>computed - order_total\<bar> > 1 / 100
               then [TotalAmountMismatch computed order_total]
               else []))"

subsection \<open>The handler\<close>

text \<open>
  The Lambda context, with the two attributes the handler reads (as the \<open>MockContext\<close>
  of the source file has them).
\<close>

record lambda_context =
  request_id :: json
  function_name :: json

text \<open>
  What leaves a handler as an exception: the \<open>ValueError\<close> it raises itself, with its
  message, or an exception from below that it re-raises.
\<close>

datatype handler_exc = RaisedValueError string | Reraised pyexc

text \<open>
  Steps 1 to 3 of the handler: the list \<open>validation_errors\<close> when the steps are through
  (or the exception of step 2), and the catalog keys requested.
\<close>

definition run_validation ::
  "products_table \<Rightarrow> builtins \<Rightarrow> dict \<Rightarrow> (pyexc + verror list) \<times> json list" where
  "run_validation tbl bi event =
     (let validation_errors = validate_required_fields event
      in case (if validation_errors = []
               then (case validate_items tbl bi (dict_get event ''items'' (JList [])) of
                       (Inl e, calls) \<Rightarrow> (Inl e, calls)
                     | (Inr item_errors, calls) \<Rightarrow> (Inr (validation_errors @ item_errors), calls))
               else (Inr validation_errors, [])) of
           (Inl e, calls) \<Rightarrow> (Inl e, calls)
         | (Inr validation_errors, calls) \<Rightarrow>
             (Inr (if validation_errors = []
                   then validation_errors @ validate_total_amount bi event
                   else validation_errors), calls))"

text \<open>The \<open>validationResult\<close> object of the response.\<close>

definition validation_result :: "builtins \<Rightarrow> lambda_context \<Rightarrow> verror list \<Rightarrow> json" where
  "validation_result bi context validation_errors =
     JObj [(''isValid'', JBool (length validation_errors = 0)),
           (''errors'', JList (map (\<lambda>e. JStr (render bi e)) validation_errors)),
           (''validatedAt'', request_id context),
           (''validatedBy'', function_name context)]"

text \<open>
  The validator's \<open>lambda_handler\<close>. \<open>{**event, 'validationResult': r}\<close> keeps the keys
  of \<open>event\<close> in place, replaces the value of a key \<open>validationResult\<close> that is already
  there and appends the key otherwise, as \<open>AList.update\<close> does.
\<close>

definition validate_order_lambda_handler ::
  "products_table \<Rightarrow> builtins \<Rightarrow> dict \<Rightarrow> lambda_context \<Rightarrow> handler_exc + dict" where
  "validate_order_lambda_handler tbl bi event context =
     (case fst (run_validation tbl bi event) of
        Inl e \<Rightarrow> Inl (Reraised e)
      | Inr validation_errors \<Rightarrow>
          (let is_valid = (length validation_errors = 0);
               response = AList.update ''validationResult''
                            (validation_result bi context validation_errors) event
           in if is_valid then Inr response
              else Inl (RaisedValueError
                     (''Order validation failed: ''
                        @ join '', '' (map (render bi) validation_errors)))))"

section \<open>The payment processor\<close>

text \<open>
  What the mock gateway reads from outside: the clock (\<open>str(int(time.time() * 1000))\<close>
  and \<open>datetime.utcnow().isoformat()\<close>), the number \<open>random.random()\<close> returns and the
  index \<open>random.choice\<close> draws. \<open>time.sleep\<close> changes nothing that is returned.
\<close>

record runtime =
  time_ms :: string
  utcnow_isoformat :: string
  random_value :: rat
  choice_index :: nat

text \<open>\<open>random.choice(xs)\<close>: the element at the drawn index, which is a valid one.\<close>

definition random_choice :: "runtime \<Rightarrow> 'a list \<Rightarrow> 'a" where
  "random_choice rt xs = xs ! (choice_index rt mod length xs)"

text \<open>\<open>f"{x:.2f}"\<close>: defined on numbers only.\<close>

fun py_format_2f :: "builtins \<Rightarrow> json \<Rightarrow> pyexc + string" where
  "py_format_2f bi (JInt n) = Inr (format_2f bi (of_int n))"
| "py_format_2f bi (JBool b) = Inr (format_2f bi (if b then 1 else 0))"
| "py_format_2f bi (JFloat r) = Inr (format_2f bi r)"
| "py_format_2f bi (JStr s) = Inl ValueError"
| "py_format_2f bi JNull = Inl TypeError"
| "py_format_2f bi (JList xs) = Inl TypeError"
| "py_format_2f bi (JObj d) = Inl TypeError"

definition generate_transaction_id :: "builtins \<Rightarrow> runtime \<Rightarrow> json \<Rightarrow> json \<Rightarrow> string" where
  "generate_transaction_id bi rt order_id user_id =
     (let timestamp = time_ms rt;
          data = py_str bi order_id @ ''-'' @ py_str bi user_id @ ''-'' @ timestamp;
          hash_hex = sha256_hexdigest bi data
      in ''txn-'' @ take 16 hash_hex)"

definition failure_reasons :: "string list" where
  "failure_reasons =
     [''Insufficient funds'', ''Card declined'', ''Payment gateway timeout'',
      ''Invalid card details'', ''Bank authorization failed'']"

definition process_payment ::
  "builtins \<Rightarrow> runtime \<Rightarrow> json \<Rightarrow> json \<Rightarrow> json \<Rightarrow> pyexc + dict" where
  "process_payment bi rt order_id user_id amount =
     (let transaction_id = generate_transaction_id bi rt order_id user_id;
          is_successful = (random_value rt < 90 / 100)
      in if is_successful then
           (case py_format_2f bi amount of
              Inl e \<Rightarrow> Inl e
            | Inr amount_2f \<Rightarrow>
                Inr [(''status'', JStr ''success''),
                     (''transactionId'', JStr transaction_id),
                     (''processedAt'', JStr (utcnow_isoformat rt @ ''Z'')),
                     (''provider'', JStr ''mock-payment-gateway''),
                     (''message'', JStr (''Payment of $'' @ amount_2f @ '' processed successfully'')),
                     (''amount'', amount),
                     (''currency'', JStr ''USD'')])
         else
           (let failure_reason = random_choice rt failure_reasons
            in Inr [(''status'', JStr ''failed''),
                    (''transactionId'', JStr transaction_id),
                    (''processedAt'', JStr (utcnow_isoformat rt @ ''Z'')),
                    (''provider'', JStr ''mock-payment-gateway''),
                    (''message'', JStr (''Payment failed: '' @ failure_reason)),
                    (''failureReason'', JStr failure_reason),
                    (''amount'', amount),
                    (''currency'', JStr ''USD'')]))"

text \<open>The payment processor's \<open>lambda_handler\<close>.\<close>

definition process_payment_lambda_handler ::
  "builtins \<Rightarrow> runtime \<Rightarrow> dict \<Rightarrow> handler_exc + dict" where
  "process_payment_lambda_handler bi rt event =
     (let order_id = dict_get event ''orderId'' JNull;
          user_id = dict_get event ''userId'' JNull;
          total_amount = dict_get event ''totalAmount'' (JInt 0)
      in case process_payment bi rt order_id user_id total_amount of
           Inl e \<Rightarrow> Inl (Reraised e)
         | Inr payment_result \<Rightarrow>
             (let response = AList.update ''paymentResult'' (JObj payment_result) event
              in case py_getitem (JObj payment_result) ''status'' of
                   Inl e \<Rightarrow> Inl (Reraised e)
                 | Inr status \<Rightarrow>
                     if status = JStr ''success'' then Inr response
                     else
                       (case py_getitem (JObj payment_result) ''message'' of
                          Inl e \<Rightarrow> Inl (Reraised e)
                        | Inr message \<Rightarrow>
                            Inl (RaisedValueError (''Payment failed: '' @ py_str bi message)))))"

text \<open>
  \<open>refund_payment\<close>, with a transaction identifier that is a string:
  \<open>transaction_id[4:]\<close> drops the first four characters.
\<close>

definition refund_payment :: "runtime \<Rightarrow> string \<Rightarrow> json \<Rightarrow> dict" where
  "refund_payment rt transaction_id amount =
     (let refund_id = ''ref-'' @ drop 4 transaction_id
      in [(''status'', JStr ''refunded''),
          (''refundId'', JStr refund_id),
          (''originalTransactionId'', JStr transaction_id),
          (''refundedAt'', JStr (utcnow_isoformat rt @ ''Z'')),
          (''amount'', amount),
          (''message'', JStr ''Payment refunded successfully'')])"

section \<open>The two comparisons in double precision\<close>

text \<open>
  A Python \<open>float\<close> is an IEEE binary64 number. \<open>to_double\<close> is the rounding every
  conversion and every operation ends with: to the nearest number with a 53-bit
  significand, a tie going to the even significand (below \<open>2 ^ - 1022\<close> the spacing stays
  \<open>2 ^ - 1074\<close>). A double is kept as the rational it is. Results beyond the largest
  double are not covered.
\<close>

definition pow2 :: "int \<Rightarrow> rat" where
  "pow2 e = (if 0 \<le> e then 2 ^ nat e else 1 / 2 ^ nat (- e))"

text \<open>The binary exponent of a positive number, from the bit length of an integer.\<close>

definition exponent_of :: "rat \<Rightarrow> int" where
  "exponent_of x =
     (if 1 \<le> x then bitlen \<lfloor>x\<rfloor> - 1 else - bitlen (\<lceil>1 / x\<rceil> - 1))"

definition round_half_even :: "rat \<Rightarrow> int" where
  "round_half_even m =
     (let n = \<lfloor>m\<rfloor>; f = m - of_int n
      in if f < 1 / 2 then n
         else if 1 / 2 < f then n + 1
         else if even n then n else n + 1)"

definition to_double :: "rat \<Rightarrow> rat" where
  "to_double x =
     (if x = 0 then 0
      else let e = max (exponent_of \<bar>x\<bar>) (- 1022);
               ulp = pow2 (e - 52)
           in sgn x * of_int (round_half_even (\<bar>x\<bar> / ulp)) * ulp)"

text \<open>
  \<open>float(x)\<close> as a double: the nearest double of an \<open>int\<close>, of a \<open>Decimal\<close>, of a JSON
  number and of the number a string spells.
\<close>

fun py_float_double :: "builtins \<Rightarrow> json \<Rightarrow> pyexc + rat" where
  "py_float_double bi (JInt n) = Inr (to_double (of_int n))"
| "py_float_double bi (JBool b) = Inr (if b then 1 else 0)"
| "py_float_double bi (JFloat r) = Inr (to_double r)"
| "py_float_double bi (JStr s) =
     (case float_of_str bi s of None \<Rightarrow> Inl ValueError | Some r \<Rightarrow> Inr (to_double r))"
| "py_float_double bi JNull = Inl TypeError"
| "py_float_double bi (JList xs) = Inl TypeError"
| "py_float_double bi (JObj d) = Inl TypeError"

text \<open>
  The price check of the loop body of \<open>validate_items\<close>, in doubles:
  \<open>abs(db_price - order_price) > 0.01\<close> rounds the difference and compares it with the
  double nearest to 0.01.
\<close>

definition check_price_double ::
  "builtins \<Rightarrow> int \<Rightarrow> json \<Rightarrow> dict \<Rightarrow> dict \<Rightarrow> pyexc + verror list" where
  "check_price_double bi item_num pid item product =
     (case map_of item ''price'' of
        None \<Rightarrow> Inr []
      | Some p \<Rightarrow>
          (case py_float_double bi (dict_get product ''price'' (JInt 0)) of
             Inl e \<Rightarrow> Inl e
           | Inr db_price \<Rightarrow>
               (case py_float_double bi p of
                  Inl e \<Rightarrow> Inl e
                | Inr order_price \<Rightarrow>
                    Inr (if \<bar>to_double (db_price - order_price)\<bar> > to_double (1 / 100)
                         then [PriceMismatch item_num pid db_price order_price]
                         else []))))"

text \<open>
  \<open>validate_total_amount\<close> in doubles: \<open>price * quantity\<close> converts the \<open>int\<close> and
  rounds the product, \<open>calculated_total += ...\<close> rounds the sum.
\<close>

definition item_amount_double :: "builtins \<Rightarrow> json \<Rightarrow> pyexc + rat option" where
  "item_amount_double bi item =
     (case py_in ''price'' item of
        Inl e \<Rightarrow> Inl e
      | Inr has_price \<Rightarrow>
          if \<not> has_price then Inr None
          else
            (case py_in ''quantity'' item of
               Inl e \<Rightarrow> Inl e
             | Inr has_quantity \<Rightarrow>
                 if \<not> has_quantity then Inr None
                 else
                   (case py_getitem item ''price'' of
                      Inl e \<Rightarrow> Inl e
                    | Inr p \<Rightarrow>
                        (case py_float_double bi p of
                           Inl e \<Rightarrow> Inl e
                         | Inr price \<Rightarrow>
                             (case item_quantity bi item of
                                Inl e \<Rightarrow> Inl e
                              | Inr quantity \<Rightarrow>
                                  Inr (Some (to_double (price * to_double (of_int quantity)))))))))"

fun total_loop_double :: "builtins \<Rightarrow> json list \<Rightarrow> rat \<Rightarrow> pyexc + rat" where
  "total_loop_double bi [] running_total = Inr running_total"
| "total_loop_double bi (item # rest) running_total =
     (case item_amount_double bi item of
        Inl e \<Rightarrow> Inl e
      | Inr None \<Rightarrow> total_loop_double bi rest running_total
      | Inr (Some a) \<Rightarrow> total_loop_double bi rest (to_double (running_total + a)))"

definition calculated_total_double :: "builtins \<Rightarrow> dict \<Rightarrow> pyexc + rat" where
  "calculated_total_double bi order =
     (case py_iter (dict_get order ''items'' (JList [])) of
        Inl e \<Rightarrow> Inl e
      | Inr xs \<Rightarrow> total_loop_double bi xs 0)"

definition validate_total_amount_double :: "builtins \<Rightarrow> dict \<Rightarrow> verror list" where
  "validate_total_amount_double bi order =
     (case calculated_total_double bi order of
        Inl e \<Rightarrow> [ErrorCalculatingTotal e]
      | Inr computed \<Rightarrow>
          (case py_float_double bi (dict_get order ''totalAmount'' (JInt 0)) of
             Inl e \<Rightarrow> [ErrorCalculatingTotal e]
           | Inr order_total \<Rightarrow>
               if \<bar>to_double (computed - order_total)\<bar> > to_double (1 / 100)
               then [TotalAmountMismatch computed order_total]
               else []))"

section \<open>Sample collaborators\<close>

text \<open>
  Concrete library functions, a catalog and a run time to evaluate the handlers on:
  the catalog holds \<open>prod-001\<close> (price 29.99, stock 5) and \<open>prod-002\<close> (price 10,
  stock not tracked), and raises on the key \<open>prod-err\<close>.
\<close>

definition sample_builtins :: builtins where
  "sample_builtins =
     \<lparr> int_of_str = (\<lambda>s. if s = ''2'' then Some 2 else None),
       float_of_str = (\<lambda>s. if s = ''59.98'' then Some (5998 / 100) else None),
       str_other = (\<lambda>v. ''<value>''),
       format_2f = (\<lambda>r. if r = 5998 / 100 then ''59.98''
                         else if r = 6010 / 100 then ''60.10'' else ''<amount>''),
       str_of_exc = (\<lambda>e. ''<exception>''),
       sha256_hexdigest = (\<lambda>s. ''0123456789abcdef0123456789abcdef'') \<rparr>"

definition sample_table :: products_table where
  "sample_table pid =
     (if pid = JStr ''prod-001''
      then Inr (Some [(''productId'', JStr ''prod-001''), (''price'', JFloat (2999 / 100)),
                      (''stock'', JInt 5)])
      else if pid = JStr ''prod-002''
      then Inr (Some [(''productId'', JStr ''prod-002''), (''price'', JInt 10)])
      else if pid = JStr ''prod-err''
      then Inl (ClientError ''ProvisionedThroughputExceededException'')
      else Inr None)"

definition sample_context :: lambda_context where
  "sample_context =
     \<lparr> request_id = JStr ''test-request-123'', function_name = JStr ''test-validate-order'' \<rparr>"

definition sample_runtime :: "rat \<Rightarrow> nat \<Rightarrow> runtime" where
  "sample_runtime r i =
     \<lparr> time_ms = ''1700000000000'', utcnow_isoformat = ''2024-01-16T10:00:00'',
       random_value = r, choice_index = i \<rparr>"

text \<open>The test event of the validator's source file.\<close>

definition test_event :: dict where
  "test_event =
     [(''orderId'', JStr ''order-test-001''),
      (''userId'', JStr ''user-123''),
      (''items'', JList [JObj [(''productId'', JStr ''prod-001''), (''quantity'', JInt 2),
                               (''price'', JFloat (2999 / 100))]]),
      (''totalAmount'', JFloat (5998 / 100))]"

text \<open>An order that lacks \<open>orderId\<close> and whose only item lacks \<open>productId\<close>.\<close>

definition event_missing_order_id :: dict where
  "event_missing_order_id =
     [(''userId'', JStr ''user-123''),
      (''items'', JList [JObj [(''quantity'', JInt 2)]]),
      (''totalAmount'', JInt 1)]"

text \<open>A complete order for a product the catalog does not have, with a wrong total.\<close>

definition event_unknown_product :: dict where
  "event_unknown_product =
     [(''orderId'', JStr ''order-test-002''),
      (''userId'', JStr ''user-123''),
      (''items'', JList [JObj [(''productId'', JStr ''prod-404''), (''quantity'', JInt 1),
                               (''price'', JInt 7)]]),
      (''totalAmount'', JInt 1)]"

text \<open>The test event with a claimed total of 60.10.\<close>

definition event_wrong_total :: dict where
  "event_wrong_total =
     [(''orderId'', JStr ''order-test-001''),
      (''userId'', JStr ''user-123''),
      (''items'', JList [JObj [(''productId'', JStr ''prod-001''), (''quantity'', JInt 2),
                               (''price'', JFloat (2999 / 100))]]),
      (''totalAmount'', JFloat (6010 / 100))]"

text \<open>The test event with \<open>items\<close> set to \<open>null\<close>.\<close>

definition event_null_items :: dict where
  "event_null_items =
     [(''orderId'', JStr ''order-test-001''),
      (''userId'', JStr ''user-123''),
      (''items'', JNull),
      (''totalAmount'', JFloat (5998 / 100))]"

text \<open>
  Two items for \<open>prod-002\<close> (catalog price 10) at a claimed price of 5: one with
  quantity 0, one with a quantity that is no number.
\<close>

definition item_quantity_zero :: json where
  "item_quantity_zero =
     JObj [(''productId'', JStr ''prod-002''), (''quantity'', JInt 0), (''price'', JInt 5)]"

definition item_quantity_text :: json where
  "item_quantity_text =
     JObj [(''productId'', JStr ''prod-002''), (''quantity'', JStr ''two''), (''price'', JInt 5)]"

text \<open>The test event, already carrying a \<open>validationResult\<close>.\<close>

definition event_revalidated :: dict where
  "event_revalidated =
     [(''orderId'', JStr ''order-test-001''),
      (''userId'', JStr ''user-123''),
      (''items'', JList [JObj [(''productId'', JStr ''prod-001''), (''quantity'', JInt 2),
                               (''price'', JFloat (2999 / 100))]]),
      (''totalAmount'', JFloat (5998 / 100)),
      (''validationResult'', JStr ''stale'')]"


text \<open>
  Three items: one whose lookup raises, one that asks for more than the stock of
  \<open>prod-001\<close> at a wrong price, one that is in order.
\<close>

definition three_items :: "json list" where
  "three_items =
     [JObj [(''productId'', JStr ''prod-err''), (''quantity'', JInt 1)],
      JObj [(''productId'', JStr ''prod-001''), (''quantity'', JInt 9), (''price'', JInt 5)],
      JObj [(''productId'', JStr ''prod-002''), (''quantity'', JInt 1), (''price'', JInt 10)]]"

text \<open>
  The catalog record of \<open>prod-001\<close> and an item claiming it at a price of 30, one cent
  above the catalog price 29.99.
\<close>

definition product_001 :: dict where
  "product_001 =
     [(''productId'', JStr ''prod-001''), (''price'', JFloat (2999 / 100)), (''stock'', JInt 5)]"

definition item_price_30 :: dict where
  "item_price_30 =
     [(''productId'', JStr ''prod-001''), (''quantity'', JInt 2), (''price'', JInt 30)]"

text \<open>
  The test event (two units at 29.99, so 59.98) with a claimed total of 59.99, and an
  order of one unit at 0.01 with a claimed total of 0.02: each claimed total is one cent
  above the sum.
\<close>

definition event_total_59_99 :: dict where
  "event_total_59_99 =
     [(''orderId'', JStr ''order-test-001''),
      (''userId'', JStr ''user-123''),
      (''items'', JList [JObj [(''productId'', JStr ''prod-001''), (''quantity'', JInt 2),
                               (''price'', JFloat (2999 / 100))]]),
      (''totalAmount'', JFloat (5999 / 100))]"

definition event_total_0_02 :: dict where
  "event_total_0_02 =
     [(''orderId'', JStr ''order-test-004''),
      (''userId'', JStr ''user-123''),
      (''items'', JList [JObj [(''productId'', JStr ''prod-003''), (''quantity'', JInt 1),
                               (''price'', JFloat (1 / 100))]]),
      (''totalAmount'', JFloat (2 / 100))]"

section \<open>Notions used in the statements\<close>

text \<open>
  The phase a message comes from: the templates of \<open>validate_required_fields\<close> are
  phase 1, those of \<open>validate_items\<close> phase 2, those of \<open>validate_total_amount\<close>
  phase 3.
\<close>

fun phase_of :: "verror \<Rightarrow> nat" where
  "phase_of (MissingRequiredField field) = 1"
| "phase_of ItemsMustBeArray = 1"
| "phase_of OrderMustContainItem = 1"
| "phase_of (MissingProductId n) = 2"
| "phase_of (MissingQuantity n) = 2"
| "phase_of (QuantityMustBePositive n) = 2"
| "phase_of (InvalidQuantity n) = 2"
| "phase_of (ProductNotFound n pid) = 2"
| "phase_of (InsufficientStock n pid requested available) = 2"
| "phase_of (PriceMismatch n pid db_price order_price) = 2"
| "phase_of (ErrorValidatingProduct n e) = 2"
| "phase_of (TotalAmountMismatch computed order_total) = 3"
| "phase_of (ErrorCalculatingTotal e) = 3"

text \<open>
  The second part of \<open>validate_required_fields\<close>, on its own: the messages about the
  shape of \<open>items\<close>.
\<close>

definition items_shape_errors :: "dict \<Rightarrow> verror list" where
  "items_shape_errors order =
     (case map_of order ''items'' of
        None \<Rightarrow> []
      | Some (JList xs) \<Rightarrow> if xs = [] then [OrderMustContainItem] else []
      | Some _ \<Rightarrow> [ItemsMustBeArray])"

text \<open>An item that is a dictionary, as the signature of \<open>validate_items\<close> has it.\<close>

fun is_dict :: "json \<Rightarrow> bool" where
  "is_dict (JObj d) = True"
| "is_dict v = False"

text \<open>
  What one iteration of the loop of \<open>validate_items\<close> appends for the item at an index,
  and the catalog keys it requests.
\<close>

definition item_errors :: "products_table \<Rightarrow> builtins \<Rightarrow> nat \<Rightarrow> json \<Rightarrow> verror list" where
  "item_errors tbl bi idx item =
     (case fst (validate_item tbl bi idx item) of Inl e \<Rightarrow> [] | Inr es \<Rightarrow> es)"

definition item_calls :: "products_table \<Rightarrow> builtins \<Rightarrow> nat \<Rightarrow> json \<Rightarrow> json list" where
  "item_calls tbl bi idx item = snd (validate_item tbl bi idx item)"

text \<open>The item number a message of the item check carries.\<close>

fun item_number :: "verror \<Rightarrow> int option" where
  "item_number (MissingProductId n) = Some n"
| "item_number (MissingQuantity n) = Some n"
| "item_number (QuantityMustBePositive n) = Some n"
| "item_number (InvalidQuantity n) = Some n"
| "item_number (ProductNotFound n pid) = Some n"
| "item_number (InsufficientStock n pid requested available) = Some n"
| "item_number (PriceMismatch n pid db_price order_price) = Some n"
| "item_number (ErrorValidatingProduct n e) = Some n"
| "item_number e = None"

section \<open>Properties of the validator\<close>

lemmas eval_defs =
  validate_required_fields_def required_fields_def field_missing_def validate_items_def
  validate_item_def item_quantity_def check_product_def check_stock_def check_price_def
  sample_table_def sample_builtins_def sample_context_def dict_get_def
  validate_total_amount_def calculated_total_def item_amount_def Let_def

subsection \<open>The loops, and where each message comes from\<close>

lemma required_fields_loop_eq:
  "required_fields_loop order fs errors
     = errors @ map MissingRequiredField (filter (field_missing order) fs)"
  by (induction fs arbitrary: errors) simp_all

lemma validate_required_fields_eq:
  "validate_required_fields order
     = map MissingRequiredField (filter (field_missing order) required_fields)
       @ items_shape_errors order"
  by (simp add: validate_required_fields_def items_shape_errors_def required_fields_loop_eq
      split: option.splits json.splits)

lemma items_shape_errors_phase:
  assumes "e \<in> set (items_shape_errors order)"
  shows "phase_of e = 1"
proof (cases "map_of order ''items''")
  case None
  with assms show ?thesis by (simp add: items_shape_errors_def)
next
  case (Some v)
  with assms show ?thesis
    by (cases v) (auto simp: items_shape_errors_def split: if_splits)
qed

lemma validate_required_fields_phase:
  "e \<in> set (validate_required_fields order) \<Longrightarrow> phase_of e = 1"
  by (auto simp: validate_required_fields_eq dest: items_shape_errors_phase)

lemma check_stock_phase:
  "check_stock bi n pid product quantity = Inr es \<Longrightarrow> e \<in> set es \<Longrightarrow> phase_of e = 2"
  by (auto simp: check_stock_def split: option.splits sum.splits if_splits)

lemma check_price_phase:
  "check_price bi n pid item product = Inr es \<Longrightarrow> e \<in> set es \<Longrightarrow> phase_of e = 2"
  by (auto simp: check_price_def split: option.splits sum.splits if_splits)

lemma check_product_phase:
  "e \<in> set (fst (check_product tbl bi n item quantity)) \<Longrightarrow> phase_of e = 2"
  by (auto simp: check_product_def split: option.splits sum.splits
      dest: check_stock_phase check_price_phase)

lemma validate_item_phase:
  "validate_item tbl bi idx item = (Inr es, cs) \<Longrightarrow> e \<in> set es \<Longrightarrow> phase_of e = 2"
  by (auto simp: validate_item_def Let_def split: sum.splits if_splits json.splits
      dest: check_product_phase)

lemma validate_items_loop_phase:
  "validate_items_loop tbl bi idx xs errors calls = (Inr es, cs)
     \<Longrightarrow> \<forall>e \<in> set errors. phase_of e = 2 \<Longrightarrow> \<forall>e \<in> set es. phase_of e = 2"
proof (induction xs arbitrary: idx errors calls)
  case Nil
  then show ?case by simp
next
  case (Cons item rest)
  obtain r c where vi: "validate_item tbl bi idx item = (r, c)"
    by (cases "validate_item tbl bi idx item")
  show ?case
  proof (cases r)
    case (Inl e)
    with Cons.prems vi show ?thesis by simp
  next
    case (Inr ies)
    with vi have item: "validate_item tbl bi idx item = (Inr ies, c)" by simp
    from Cons.prems(1) item
    have loop: "validate_items_loop tbl bi (Suc idx) rest (errors @ ies) (calls @ c) = (Inr es, cs)"
      by simp
    have "\<forall>e \<in> set (errors @ ies). phase_of e = 2"
      using Cons.prems(2) validate_item_phase [OF item] by auto
    with Cons.IH [OF loop] show ?thesis by blast
  qed
qed

lemma validate_items_phase:
  "validate_items tbl bi items = (Inr es, cs) \<Longrightarrow> e \<in> set es \<Longrightarrow> phase_of e = 2"
  using validate_items_loop_phase [of tbl bi 0 _ "[]" "[]" es cs]
  by (auto simp: validate_items_def split: sum.splits)

lemma validate_total_amount_phase:
  "e \<in> set (validate_total_amount bi order) \<Longrightarrow> phase_of e = 3"
  by (auto simp: validate_total_amount_def split: sum.splits if_splits)

subsection \<open>The three phases\<close>

text \<open>
  Claim C1. The handler runs the structural check, then the per-item catalog check,
  then the total reconciliation, and a phase that reports errors ends the run: when the
  structural check reports errors the list is exactly its errors and the catalog is never
  asked; when it passes and the item check reports errors (or raises) the list is exactly
  the item errors; only when both pass is the list that of the total check. Hence every
  error list the handler computes holds messages of one phase only.
\<close>

theorem validation_phases_short_circuit:
  "(validate_required_fields event \<noteq> [] \<longrightarrow>
      run_validation tbl bi event = (Inr (validate_required_fields event), []))
   \<and> (validate_required_fields event = [] \<longrightarrow>
        (\<forall>e calls. validate_items tbl bi (dict_get event ''items'' (JList [])) = (Inl e, calls)
            \<longrightarrow> run_validation tbl bi event = (Inl e, calls))
      \<and> (\<forall>es calls. validate_items tbl bi (dict_get event ''items'' (JList [])) = (Inr es, calls)
              \<and> es \<noteq> []
            \<longrightarrow> run_validation tbl bi event = (Inr es, calls))
      \<and> (\<forall>calls. validate_items tbl bi (dict_get event ''items'' (JList [])) = (Inr [], calls)
            \<longrightarrow> run_validation tbl bi event = (Inr (validate_total_amount bi event), calls)))
   \<and> (\<forall>errs. fst (run_validation tbl bi event) = Inr errs \<longrightarrow>
         (\<exists>p \<in> {1, 2, 3}. \<forall>e \<in> set errs. phase_of e = p))"
proof (intro conjI allI impI)
  fix errs
  assume run: "fst (run_validation tbl bi event) = Inr errs"
  show "\<exists>p \<in> {1, 2, 3}. \<forall>e \<in> set errs. phase_of e = p"
  proof (cases "validate_required_fields event = []")
    case False
    with run have "errs = validate_required_fields event"
      by (simp add: run_validation_def)
    then have "\<forall>e \<in> set errs. phase_of e = 1"
      by (simp add: validate_required_fields_phase)
    then show ?thesis by blast
  next
    case True
    obtain r calls
      where vi: "validate_items tbl bi (dict_get event ''items'' (JList [])) = (r, calls)"
      by (cases "validate_items tbl bi (dict_get event ''items'' (JList []))")
    show ?thesis
    proof (cases r)
      case (Inl e)
      with run True vi show ?thesis by (simp add: run_validation_def)
    next
      case (Inr es)
      show ?thesis
      proof (cases "es = []")
        case True
        with run \<open>validate_required_fields event = []\<close> vi Inr
        have "errs = validate_total_amount bi event" by (simp add: run_validation_def)
        then have "\<forall>e \<in> set errs. phase_of e = 3"
          by (simp add: validate_total_amount_phase)
        then show ?thesis by blast
      next
        case False
        with run \<open>validate_required_fields event = []\<close> vi Inr
        have "errs = es" by (simp add: run_validation_def)
        with vi Inr have "\<forall>e \<in> set errs. phase_of e = 2"
          using validate_items_phase by blast
        then show ?thesis by blast
      qed
    qed
  qed
qed (simp_all add: run_validation_def)

theorem validation_phases_short_circuit_witness:
  "validate_required_fields event_missing_order_id = [MissingRequiredField ''orderId'']
   \<and> run_validation sample_table sample_builtins event_missing_order_id
       = (Inr [MissingRequiredField ''orderId''], [])
   \<and> validate_required_fields event_unknown_product = []
   \<and> run_validation sample_table sample_builtins event_unknown_product
       = (Inr [ProductNotFound 1 (JStr ''prod-404'')], [JStr ''prod-404''])
   \<and> validate_required_fields event_wrong_total = []
   \<and> run_validation sample_table sample_builtins event_wrong_total
       = (Inr [TotalAmountMismatch (5998 / 100) (6010 / 100)], [JStr ''prod-001''])"
proof -
  have a1: "validate_required_fields event_missing_order_id = [MissingRequiredField ''orderId'']"
    by (simp add: event_missing_order_id_def eval_defs)
  then have a2: "validate_required_fields event_missing_order_id \<noteq> []" by simp
  have b1: "validate_required_fields event_unknown_product = []"
    by (simp add: event_unknown_product_def eval_defs)
  have b2: "validate_items sample_table sample_builtins
              (dict_get event_unknown_product ''items'' (JList []))
            = (Inr [ProductNotFound 1 (JStr ''prod-404'')], [JStr ''prod-404''])
          \<and> [ProductNotFound 1 (JStr ''prod-404'')] \<noteq> []"
    by (simp add: event_unknown_product_def eval_defs)
  have c1: "validate_required_fields event_wrong_total = []"
    by (simp add: event_wrong_total_def eval_defs)
  have c2: "validate_items sample_table sample_builtins
              (dict_get event_wrong_total ''items'' (JList []))
            = (Inr [], [JStr ''prod-001''])"
    by (simp add: event_wrong_total_def eval_defs)
  have c3: "validate_total_amount sample_builtins event_wrong_total
            = [TotalAmountMismatch (5998 / 100) (6010 / 100)]"
    by (simp add: event_wrong_total_def eval_defs)
  note thm1 = validation_phases_short_circuit
    [of event_missing_order_id sample_table sample_builtins, THEN conjunct1, rule_format, OF a2]
  note thm2 = validation_phases_short_circuit
    [of event_unknown_product sample_table sample_builtins, THEN conjunct2, THEN conjunct1,
      rule_format, OF b1, THEN conjunct2, THEN conjunct1, rule_format, OF b2]
  note thm3 = validation_phases_short_circuit
    [of event_wrong_total sample_table sample_builtins, THEN conjunct2, THEN conjunct1,
      rule_format, OF c1, THEN conjunct2, THEN conjunct2, rule_format, OF c2]
  from thm1 thm2 thm3 a1 b1 c1 c3 show ?thesis by simp
qed

subsection \<open>The structural check\<close>

lemma validate_required_fields_one_per_field:
  assumes "map_of order ''items'' = None \<or> map_of order ''items'' = Some (JList (x # xs))"
  shows "validate_required_fields order
           = map MissingRequiredField (filter (field_missing order) required_fields)"
  using assms by (auto simp: validate_required_fields_eq items_shape_errors_def)

text \<open>
  Claim C5. For an envelope in which a required field is missing or null, the structural
  check is to report exactly one message per missing or invalid field, and the verdict is
  invalid. On the test event with \<open>items\<close> set to \<open>null\<close>, the only field that is
  missing or null is \<open>items\<close>, and the check reports two messages for it: that the
  field is missing and that it is no array. (The order is rejected, with both messages;
  when \<open>items\<close> is absent or a non-empty list, the messages are exactly one per missing
  field, by \<open>validate_required_fields_one_per_field\<close>.)
\<close>

theorem validate_required_fields_null_items:
  "filter (field_missing event_null_items) required_fields = [''items'']
   \<and> validate_required_fields event_null_items
       = [MissingRequiredField ''items'', ItemsMustBeArray]
   \<and> validate_order_lambda_handler sample_table sample_builtins event_null_items sample_context
       = Inl (RaisedValueError
           ''Order validation failed: Missing required field: items, Items must be an array'')"
proof -
  have a: "validate_required_fields event_null_items
       = [MissingRequiredField ''items'', ItemsMustBeArray]"
    by (simp add: event_null_items_def eval_defs)
  have b: "filter (field_missing event_null_items) required_fields = [''items'']"
    by (simp add: event_null_items_def eval_defs)
  have c: "fst (run_validation sample_table sample_builtins event_null_items)
       = Inr [MissingRequiredField ''items'', ItemsMustBeArray]"
    by (simp add: run_validation_def a)
  have d: "validate_order_lambda_handler sample_table sample_builtins event_null_items
             sample_context
       = Inl (RaisedValueError
           ''Order validation failed: Missing required field: items, Items must be an array'')"
    by (simp add: validate_order_lambda_handler_def c)
  from a b d show ?thesis by simp
qed

subsection \<open>The total\<close>






subsection \<open>The item check, item by item\<close>

lemma py_int_exc: "py_int bi v = Inl e \<Longrightarrow> e = ValueError \<or> e = TypeError"
  by (cases v) (auto split: option.splits)

lemma item_quantity_dict:
  "map_of d ''quantity'' = Some qv \<Longrightarrow> item_quantity bi (JObj d) = py_int bi qv"
  by (simp add: item_quantity_def)

text \<open>One iteration on a dictionary, case by case.\<close>

lemma validate_item_dict:
  "validate_item tbl bi idx (JObj d) =
     (let item_num = int idx + 1
      in if map_of d ''productId'' = None then (Inr [MissingProductId item_num], [])
         else case map_of d ''quantity'' of
                None \<Rightarrow> (Inr [MissingQuantity item_num], [])
              | Some qv \<Rightarrow>
                  (case py_int bi qv of
                     Inl e \<Rightarrow> (Inr [InvalidQuantity item_num], [])
                   | Inr quantity \<Rightarrow>
                       (Inr ((if quantity \<le> 0 then [QuantityMustBePositive item_num] else [])
                             @ fst (check_product tbl bi item_num d quantity)),
                        snd (check_product tbl bi item_num d quantity))))"
  by (auto simp: validate_item_def Let_def item_quantity_def split: option.splits sum.splits
      dest: py_int_exc)

lemma validate_item_dict_Inr: "\<not> isl (fst (validate_item tbl bi idx (JObj d)))"
  by (simp add: validate_item_dict Let_def split: option.splits sum.splits)

lemma validate_item_is_dict: "is_dict x \<Longrightarrow> \<not> isl (fst (validate_item tbl bi idx x))"
  by (cases x) (simp_all add: validate_item_dict_Inr)

lemma validate_item_eq:
  "\<not> isl (fst (validate_item tbl bi idx x))
     \<Longrightarrow> validate_item tbl bi idx x = (Inr (item_errors tbl bi idx x), item_calls tbl bi idx x)"
  by (cases "validate_item tbl bi idx x"; cases "fst (validate_item tbl bi idx x)")
     (auto simp: item_errors_def item_calls_def)

lemma validate_items_loop_all:
  "\<forall>p \<in> set (enumerate idx xs). \<not> isl (fst (validate_item tbl bi (fst p) (snd p)))
     \<Longrightarrow> validate_items_loop tbl bi idx xs errors calls
         = (Inr (errors @ concat (map (\<lambda>p. item_errors tbl bi (fst p) (snd p)) (enumerate idx xs))),
            calls @ concat (map (\<lambda>p. item_calls tbl bi (fst p) (snd p)) (enumerate idx xs)))"
proof (induction xs arbitrary: idx errors calls)
  case Nil
  then show ?case by simp
next
  case (Cons x xs)
  from Cons.prems have ok: "\<not> isl (fst (validate_item tbl bi idx x))" by simp
  from Cons.prems
  have rest: "\<forall>p \<in> set (enumerate (Suc idx) xs). \<not> isl (fst (validate_item tbl bi (fst p) (snd p)))"
    by simp
  show ?case
    by (simp add: validate_item_eq [OF ok] Cons.IH [OF rest])
qed

lemma validate_items_loop_Inr:
  "validate_items_loop tbl bi idx xs errors calls = (Inr es, cs)
     \<Longrightarrow> \<forall>p \<in> set (enumerate idx xs). \<not> isl (fst (validate_item tbl bi (fst p) (snd p)))"
proof (induction xs arbitrary: idx errors calls)
  case Nil
  then show ?case by simp
next
  case (Cons x xs)
  obtain r c where vi: "validate_item tbl bi idx x = (r, c)"
    by (cases "validate_item tbl bi idx x")
  show ?case
  proof (cases r)
    case (Inl e)
    with Cons.prems vi show ?thesis by simp
  next
    case (Inr ies)
    with Cons.prems vi
    have "validate_items_loop tbl bi (Suc idx) xs (errors @ ies) (calls @ c) = (Inr es, cs)"
      by simp
    from Cons.IH [OF this] vi Inr show ?thesis by simp
  qed
qed


lemma check_stock_item_number:
  "check_stock bi n pid product quantity = Inr es \<Longrightarrow> e \<in> set es \<Longrightarrow> item_number e = Some n"
  by (auto simp: check_stock_def split: option.splits sum.splits if_splits)

lemma check_price_item_number:
  "check_price bi n pid item product = Inr es \<Longrightarrow> e \<in> set es \<Longrightarrow> item_number e = Some n"
  by (auto simp: check_price_def split: option.splits sum.splits if_splits)

lemma check_product_item_number:
  "e \<in> set (fst (check_product tbl bi n item quantity)) \<Longrightarrow> item_number e = Some n"
  by (auto simp: check_product_def split: option.splits sum.splits
      dest: check_stock_item_number check_price_item_number)

lemma validate_item_item_number:
  "validate_item tbl bi idx item = (Inr es, cs) \<Longrightarrow> e \<in> set es
     \<Longrightarrow> item_number e = Some (int idx + 1)"
  by (auto simp: validate_item_def Let_def split: sum.splits if_splits json.splits
      dest: check_product_item_number)

lemma item_errors_item_number:
  "e \<in> set (item_errors tbl bi idx item) \<Longrightarrow> item_number e = Some (int idx + 1)"
proof (cases "validate_item tbl bi idx item")
  case (Pair r c)
  assume e: "e \<in> set (item_errors tbl bi idx item)"
  show ?thesis
  proof (cases r)
    case (Inl x)
    with Pair e show ?thesis by (simp add: item_errors_def)
  next
    case (Inr es)
    with Pair e have "e \<in> set es" by (simp add: item_errors_def)
    with Pair Inr show ?thesis by (auto dest: validate_item_item_number)
  qed
qed

lemma check_product_found:
  "map_of item ''productId'' = Some pid \<Longrightarrow> tbl pid = Inr (Some product)
     \<Longrightarrow> check_product tbl bi n item quantity
         = (case check_stock bi n pid product quantity of
              Inl e \<Rightarrow> [ErrorValidatingProduct n e]
            | Inr stock_errors \<Rightarrow>
                stock_errors @ (case check_price bi n pid item product of
                                  Inl e \<Rightarrow> [ErrorValidatingProduct n e]
                                | Inr price_errors \<Rightarrow> price_errors),
            [pid])"
  by (simp add: check_product_def split: sum.splits)

lemma check_product_calls:
  "map_of item ''productId'' = Some pid \<Longrightarrow> snd (check_product tbl bi n item quantity) = [pid]"
  by (simp add: check_product_def split: sum.splits option.splits)

subsection \<open>Quantities\<close>

lemma validate_item_invalid_quantity:
  "map_of d ''productId'' = Some pid \<Longrightarrow> map_of d ''quantity'' = Some qv
     \<Longrightarrow> py_int bi qv = Inl e
     \<Longrightarrow> validate_item tbl bi idx (JObj d) = (Inr [InvalidQuantity (int idx + 1)], [])"
  by (simp add: validate_item_dict Let_def)

lemma validate_item_nonpositive_quantity:
  "map_of d ''productId'' = Some pid \<Longrightarrow> map_of d ''quantity'' = Some qv
     \<Longrightarrow> py_int bi qv = Inr q \<Longrightarrow> q \<le> 0
     \<Longrightarrow> validate_item tbl bi idx (JObj d)
         = (Inr (QuantityMustBePositive (int idx + 1)
                   # fst (check_product tbl bi (int idx + 1) d q)),
            [pid])"
  by (simp add: validate_item_dict check_product_calls Let_def)

text \<open>
  Claim C3. An item whose quantity does not parse as a positive integer is to get an
  error and no further check. The code does so for a quantity that is no number (second
  equation: one message, the catalog is not asked; in general
  \<open>validate_item_invalid_quantity\<close>), but for the quantity 0 it records the message
  and goes on: the catalog is asked for the product and the price check runs and reports
  its own message (first equation; in general \<open>validate_item_nonpositive_quantity\<close>).
\<close>

theorem validate_items_quantity_zero:
  "validate_items sample_table sample_builtins (JList [item_quantity_zero])
     = (Inr [QuantityMustBePositive 1, PriceMismatch 1 (JStr ''prod-002'') 10 5],
        [JStr ''prod-002''])
   \<and> validate_items sample_table sample_builtins (JList [item_quantity_text])
     = (Inr [InvalidQuantity 1], [])"
  by (simp add: item_quantity_zero_def item_quantity_text_def eval_defs)

subsection \<open>Accumulation\<close>

text \<open>
  Claim C6. In the item check, insufficient stock yields a message with the requested and
  the available quantity and the price check of that item still runs (first part); an
  exception of the catalog lookup, transient or not, becomes a message of that item
  (second part), and the iteration ends normally with the messages of that item (third
  part), each carrying the item's number (fourth part); and for a list of dictionaries
  the result is the messages of the items one after the other in item order, every item
  being evaluated whatever the others did (fifth part).
\<close>

theorem item_errors_accumulate:
  "(map_of item ''productId'' = Some pid \<and> tbl pid = Inr (Some product)
      \<and> map_of product ''stock'' = Some s \<and> py_int bi s = Inr available \<and> available < quantity
     \<longrightarrow> check_product tbl bi n item quantity
          = (InsufficientStock n pid quantity available
               # (case check_price bi n pid item product of
                    Inl e \<Rightarrow> [ErrorValidatingProduct n e]
                  | Inr price_errors \<Rightarrow> price_errors),
             [pid]))
   \<and> (map_of item ''productId'' = Some pid \<and> tbl pid = Inl fault
     \<longrightarrow> check_product tbl bi n item quantity = ([ErrorValidatingProduct n fault], [pid]))
   \<and> (map_of item ''productId'' = Some pid \<and> map_of item ''quantity'' = Some qv
      \<and> py_int bi qv = Inr quantity
     \<longrightarrow> validate_item tbl bi idx (JObj item)
          = (Inr ((if quantity \<le> 0 then [QuantityMustBePositive (int idx + 1)] else [])
                  @ fst (check_product tbl bi (int idx + 1) item quantity)),
             [pid]))
   \<and> (\<forall>e \<in> set (item_errors tbl bi idx x). item_number e = Some (int idx + 1))
   \<and> ((\<forall>x \<in> set xs. is_dict x)
     \<longrightarrow> validate_items tbl bi (JList xs)
          = (Inr (concat (map (\<lambda>p. item_errors tbl bi (fst p) (snd p)) (enumerate 0 xs))),
             concat (map (\<lambda>p. item_calls tbl bi (fst p) (snd p)) (enumerate 0 xs))))"
proof (intro conjI impI)
  assume h: "map_of item ''productId'' = Some pid \<and> tbl pid = Inr (Some product)
      \<and> map_of product ''stock'' = Some s \<and> py_int bi s = Inr available \<and> available < quantity"
  then have st: "check_stock bi n pid product quantity
                   = Inr [InsufficientStock n pid quantity available]"
    by (simp add: check_stock_def)
  from h have "check_product tbl bi n item quantity
         = (case check_stock bi n pid product quantity of
              Inl e \<Rightarrow> [ErrorValidatingProduct n e]
            | Inr stock_errors \<Rightarrow>
                stock_errors @ (case check_price bi n pid item product of
                                  Inl e \<Rightarrow> [ErrorValidatingProduct n e]
                                | Inr price_errors \<Rightarrow> price_errors),
            [pid])"
    by (intro check_product_found) simp_all
  then show "check_product tbl bi n item quantity
          = (InsufficientStock n pid quantity available
               # (case check_price bi n pid item product of
                    Inl e \<Rightarrow> [ErrorValidatingProduct n e]
                  | Inr price_errors \<Rightarrow> price_errors),
             [pid])"
    unfolding st by simp
next
  assume "map_of item ''productId'' = Some pid \<and> tbl pid = Inl fault"
  then show "check_product tbl bi n item quantity = ([ErrorValidatingProduct n fault], [pid])"
    by (simp add: check_product_def)
next
  assume h: "map_of item ''productId'' = Some pid \<and> map_of item ''quantity'' = Some qv
      \<and> py_int bi qv = Inr quantity"
  then have "snd (check_product tbl bi (int idx + 1) item quantity) = [pid]"
    by (simp add: check_product_calls)
  with h show "validate_item tbl bi idx (JObj item)
          = (Inr ((if quantity \<le> 0 then [QuantityMustBePositive (int idx + 1)] else [])
                  @ fst (check_product tbl bi (int idx + 1) item quantity)),
             [pid])"
    by (simp add: validate_item_dict Let_def)
next
  show "\<forall>e \<in> set (item_errors tbl bi idx x). item_number e = Some (int idx + 1)"
    by (simp add: item_errors_item_number)
next
  assume dicts: "\<forall>x \<in> set xs. is_dict x"
  have "\<forall>p \<in> set (enumerate 0 xs). \<not> isl (fst (validate_item tbl bi (fst p) (snd p)))"
  proof
    fix p assume "p \<in> set (enumerate 0 xs)"
    moreover obtain i y where "p = (i, y)" by (cases p)
    ultimately have "snd p \<in> set xs"
      by (auto simp: enumerate_eq_zip dest: set_zip_rightD)
    with dicts show "\<not> isl (fst (validate_item tbl bi (fst p) (snd p)))"
      by (simp add: validate_item_is_dict)
  qed
  from validate_items_loop_all [OF this, of "[]" "[]"]
  show "validate_items tbl bi (JList xs)
          = (Inr (concat (map (\<lambda>p. item_errors tbl bi (fst p) (snd p)) (enumerate 0 xs))),
             concat (map (\<lambda>p. item_calls tbl bi (fst p) (snd p)) (enumerate 0 xs)))"
    by (simp add: validate_items_def)
qed

theorem item_errors_accumulate_witness:
  "validate_items sample_table sample_builtins (JList three_items)
     = (Inr [ErrorValidatingProduct 1 (ClientError ''ProvisionedThroughputExceededException''),
             InsufficientStock 2 (JStr ''prod-001'') 9 5,
             PriceMismatch 2 (JStr ''prod-001'') (2999 / 100) 5],
        [JStr ''prod-err'', JStr ''prod-001'', JStr ''prod-002''])
   \<and> check_product sample_table sample_builtins 2
        [(''productId'', JStr ''prod-001''), (''quantity'', JInt 9), (''price'', JInt 5)] 9
     = ([InsufficientStock 2 (JStr ''prod-001'') 9 5,
         PriceMismatch 2 (JStr ''prod-001'') (2999 / 100) 5], [JStr ''prod-001''])
   \<and> check_product sample_table sample_builtins 1
        [(''productId'', JStr ''prod-err''), (''quantity'', JInt 1)] 1
     = ([ErrorValidatingProduct 1 (ClientError ''ProvisionedThroughputExceededException'')],
        [JStr ''prod-err''])"
proof -
  have dicts: "\<forall>x \<in> set three_items. is_dict x" by (simp add: three_items_def)
  note w = item_errors_accumulate [where tbl = sample_table and bi = sample_builtins and xs = three_items,
      THEN conjunct2, THEN conjunct2, THEN conjunct2, THEN conjunct2, THEN mp, OF dicts]
  have e: "enumerate 0 three_items
             = [(0, JObj [(''productId'', JStr ''prod-err''), (''quantity'', JInt 1)]),
                (1, JObj [(''productId'', JStr ''prod-001''), (''quantity'', JInt 9),
                          (''price'', JInt 5)]),
                (2, JObj [(''productId'', JStr ''prod-002''), (''quantity'', JInt 1),
                          (''price'', JInt 10)])]"
    by (simp add: three_items_def)
  have all: "validate_items sample_table sample_builtins (JList three_items)
     = (Inr [ErrorValidatingProduct 1 (ClientError ''ProvisionedThroughputExceededException''),
             InsufficientStock 2 (JStr ''prod-001'') 9 5,
             PriceMismatch 2 (JStr ''prod-001'') (2999 / 100) 5],
        [JStr ''prod-err'', JStr ''prod-001'', JStr ''prod-002''])"
    unfolding w e by (simp add: item_errors_def item_calls_def eval_defs)
  have short: "map_of [(''productId'', JStr ''prod-001''), (''quantity'', JInt 9), (''price'', JInt 5)]
                 ''productId'' = Some (JStr ''prod-001'')
      \<and> sample_table (JStr ''prod-001'')
          = Inr (Some [(''productId'', JStr ''prod-001''), (''price'', JFloat (2999 / 100)),
                       (''stock'', JInt 5)])
      \<and> map_of [(''productId'', JStr ''prod-001''), (''price'', JFloat (2999 / 100)),
                 (''stock'', JInt 5)] ''stock'' = Some (JInt 5)
      \<and> py_int sample_builtins (JInt 5) = Inr 5 \<and> (5 :: int) < 9"
    by (simp add: sample_table_def)
  note w1 = item_errors_accumulate
    [where tbl = sample_table and bi = sample_builtins and pid = "JStr ''prod-001''" and n = 2
       and item = "[(''productId'', JStr ''prod-001''), (''quantity'', JInt 9), (''price'', JInt 5)]",
      THEN conjunct1, rule_format, OF short]
  have stock: "check_product sample_table sample_builtins 2
        [(''productId'', JStr ''prod-001''), (''quantity'', JInt 9), (''price'', JInt 5)] 9
     = ([InsufficientStock 2 (JStr ''prod-001'') 9 5,
         PriceMismatch 2 (JStr ''prod-001'') (2999 / 100) 5], [JStr ''prod-001''])"
    unfolding w1 by (simp add: check_price_def dict_get_def)
  have fault: "map_of [(''productId'', JStr ''prod-err''), (''quantity'', JInt 1)] ''productId''
                 = Some (JStr ''prod-err'')
      \<and> sample_table (JStr ''prod-err'')
          = Inl (ClientError ''ProvisionedThroughputExceededException'')"
    by (simp add: sample_table_def)
  note w2 = item_errors_accumulate
    [where tbl = sample_table and bi = sample_builtins and pid = "JStr ''prod-err''" and n = 1
       and quantity = 1
       and item = "[(''productId'', JStr ''prod-err''), (''quantity'', JInt 1)]",
      THEN conjunct2, THEN conjunct1, rule_format, OF fault]
  from all stock w2 show ?thesis by simp
qed

subsection \<open>The two comparisons\<close>

text \<open>The rounding: the exponent brackets the number, and the result is within half a unit.\<close>

lemma pow2_of_nat: "pow2 (int g) = 2 ^ g"
  by (simp add: pow2_def)

lemma pow2_minus_of_nat: "pow2 (- int g) = 1 / 2 ^ g"
  by (cases g) (simp_all add: pow2_def nat_add_distrib)

lemma floorlog_two_bounds:
  assumes "0 < n"
  obtains g where "floorlog 2 n = Suc g" "(2 :: rat) ^ g \<le> of_nat n"
    "(of_nat n :: rat) + 1 \<le> 2 ^ Suc g"
proof -
  from floorlog_bounds [OF assms, of 2]
  have b: "2 ^ (floorlog 2 n - 1) \<le> n" "n < 2 ^ floorlog 2 n" by simp_all
  have "0 < floorlog 2 n" using assms by (simp add: floorlog_def)
  then obtain g where g: "floorlog 2 n = Suc g" by (cases "floorlog 2 n") simp_all
  from b g have "2 ^ g \<le> n" by simp
  then have "(of_nat (2 ^ g) :: rat) \<le> of_nat n" by (rule of_nat_mono)
  then have lo: "(2 :: rat) ^ g \<le> of_nat n" by simp
  from b g have "Suc n \<le> 2 ^ Suc g" by simp
  then have "(of_nat (Suc n) :: rat) \<le> of_nat (2 ^ Suc g)" by (rule of_nat_mono)
  then have hi: "(of_nat n :: rat) + 1 \<le> 2 ^ Suc g" by simp
  from g lo hi show thesis by (rule that)
qed


lemma exponent_of_bounds:
  assumes "0 < x"
  shows "pow2 (exponent_of x) \<le> x \<and> x < pow2 (exponent_of x + 1)"
proof (cases "1 \<le> x")
  case True
  define n where "n = nat \<lfloor>x\<rfloor>"
  have fl: "1 \<le> \<lfloor>x\<rfloor>" using True by simp
  then have n: "0 < n" by (simp add: n_def)
  have nf: "(of_nat n :: rat) = of_int \<lfloor>x\<rfloor>"
    using fl by (simp add: n_def)
  have nx: "of_nat n \<le> x" "x < of_nat n + 1"
    unfolding nf by linarith+
  from floorlog_two_bounds [OF n] obtain g where g: "floorlog 2 n = Suc g"
    and lo: "(2 :: rat) ^ g \<le> of_nat n" and hi: "(of_nat n :: rat) + 1 \<le> 2 ^ Suc g"
    by blast
  have e: "exponent_of x = int g"
    using True g by (simp add: exponent_of_def bitlen_def n_def)
  have e1: "exponent_of x + 1 = int (Suc g)" by (simp add: e)
  have "pow2 (exponent_of x) \<le> x"
    unfolding e pow2_of_nat using lo nx(1) by (rule order_trans)
  moreover have "x < pow2 (exponent_of x + 1)"
    unfolding e1 pow2_of_nat using nx(2) hi by (rule less_le_trans)
  ultimately show ?thesis by (rule conjI)
next
  case False
  define y where "y = 1 / x"
  have y: "1 < y" using False assms by (simp add: y_def)
  have xy: "1 / y = x" by (simp add: y_def)
  define k where "k = nat (\<lceil>y\<rceil> - 1)"
  have cy: "2 \<le> \<lceil>y\<rceil>" using y by linarith
  then have k: "0 < k" by (simp add: k_def)
  have kk: "(of_nat k :: rat) = of_int \<lceil>y\<rceil> - 1" using cy by (simp add: k_def)
  have ky: "of_nat k < y" "y \<le> of_nat k + 1"
    unfolding kk by linarith+
  from floorlog_two_bounds [OF k] obtain g where g: "floorlog 2 k = Suc g"
    and lo: "(2 :: rat) ^ g \<le> of_nat k" and hi: "(of_nat k :: rat) + 1 \<le> 2 ^ Suc g"
    by blast
  have e: "exponent_of x = - int (Suc g)"
    using False g by (simp add: exponent_of_def bitlen_def k_def y_def)
  have e1: "exponent_of x + 1 = - int g" by (simp add: e)
  have ylo: "2 ^ g < y" using lo ky(1) by (rule le_less_trans)
  have yhi: "y \<le> 2 ^ Suc g" using ky(2) hi by (rule order_trans)
  have ypos: "0 < y" using y by simp
  have "1 / 2 ^ Suc g \<le> 1 / y"
    using yhi ypos by (intro divide_left_mono) simp_all
  then have a: "pow2 (exponent_of x) \<le> x"
    by (simp only: e pow2_minus_of_nat xy)
  have "1 / y < 1 / 2 ^ g"
    using ylo ypos by (intro divide_strict_left_mono) simp_all
  then have b: "x < pow2 (exponent_of x + 1)"
    by (simp only: e1 pow2_minus_of_nat xy)
  from a b show ?thesis by (rule conjI)
qed

lemma round_half_even_close: "\<bar>of_int (round_half_even m) - m\<bar> \<le> 1 / 2"
proof -
  have "of_int \<lfloor>m\<rfloor> \<le> m" "m < of_int \<lfloor>m\<rfloor> + 1" by linarith+
  then show ?thesis
    by (auto simp: round_half_even_def Let_def abs_le_iff)
qed

lemma pow2_pos: "0 < pow2 e"
  by (simp add: pow2_def)

lemma to_double_close:
  "\<bar>to_double x - x\<bar> \<le> pow2 (max (exponent_of \<bar>x\<bar>) (- 1022) - 52) / 2"
proof (cases "x = 0")
  case True
  have "0 < pow2 (max (exponent_of \<bar>x\<bar>) (- 1022) - 52)" by (rule pow2_pos)
  with True show ?thesis by (simp add: to_double_def)
next
  case False
  define u where "u = pow2 (max (exponent_of \<bar>x\<bar>) (- 1022) - 52)"
  have u: "0 < u" unfolding u_def by (rule pow2_pos)
  define k where "k = round_half_even (\<bar>x\<bar> / u)"
  have td: "to_double x = sgn x * of_int k * u"
    using False by (simp add: to_double_def Let_def u_def k_def)
  have "\<bar>of_int k - \<bar>x\<bar> / u\<bar> \<le> 1 / 2" unfolding k_def by (rule round_half_even_close)
  then have "\<bar>of_int k - \<bar>x\<bar> / u\<bar> * u \<le> (1 / 2) * u"
    using u by (intro mult_right_mono) simp_all
  then have "\<bar>(of_int k - \<bar>x\<bar> / u) * u\<bar> \<le> u / 2"
    using u by (simp add: abs_mult)
  moreover have "(of_int k - \<bar>x\<bar> / u) * u = of_int k * u - \<bar>x\<bar>"
    using u by (simp add: left_diff_distrib)
  ultimately have c: "\<bar>of_int k * u - \<bar>x\<bar>\<bar> \<le> u / 2"
    by simp
  have "sgn x * (of_int k * u - \<bar>x\<bar>) = sgn x * of_int k * u - sgn x * \<bar>x\<bar>"
    by (simp only: right_diff_distrib mult.assoc)
  also have "\<dots> = to_double x - x"
    by (simp only: td sgn_mult_abs)
  finally have "\<bar>to_double x - x\<bar> = \<bar>sgn x\<bar> * \<bar>of_int k * u - \<bar>x\<bar>\<bar>"
    by (simp only: abs_mult [symmetric])
  also have "\<bar>sgn x\<bar> = 1" using False by (simp add: abs_sgn_eq)
  finally show ?thesis using c by (simp add: u_def)
qed

text \<open>Some doubles, as \<open>float.as_integer_ratio\<close> gives them, two ties included.\<close>

lemma to_double_values:
  "to_double (1 / 100) = 5764607523034235 / 576460752303423488"
  "to_double (1 / 10) = 3602879701896397 / 36028797018963968"
  "to_double (2999 / 100) = 8441434551552573 / 281474976710656"
  "to_double (5999 / 100) = 8442841926436127 / 140737488355328"
  "to_double 30 = 30"
  "to_double 9007199254740993 = 9007199254740992"
  "to_double 9007199254740995 = 9007199254740996"
  by code_simp+

text \<open>
  Claim C2. Both comparisons are to report a mismatch exactly when the two amounts differ
  by more than 0.01, and never when they differ by at most 0.01; the code's comments at
  the two tests say the same ("Allow small floating point differences", at the total
  with "(1 cent)"). In double precision the code does report amounts that differ by
  exactly one cent: the
  total check for two units at 29.99 against a claimed total of 59.99 (first part), and
  the price check for a claimed price of 30 against the catalog price 29.99 (third
  part); the differences of the decimal amounts are within the tolerance (second and
  fourth part). Other amounts one cent apart pass, as 0.01 against 0.02 (fifth part), and
  so do equal amounts (sixth part).
\<close>

theorem tolerance_flags_one_cent:
  "validate_total_amount_double sample_builtins event_total_59_99
     = [TotalAmountMismatch (to_double (5998 / 100)) (to_double (5999 / 100))]
   \<and> \<bar>2 * (2999 / 100) - 5999 / 100 :: rat\<bar> \<le> 1 / 100
   \<and> check_price_double sample_builtins 1 (JStr ''prod-001'') item_price_30 product_001
     = Inr [PriceMismatch 1 (JStr ''prod-001'') (to_double (2999 / 100)) 30]
   \<and> \<bar>2999 / 100 - 30 :: rat\<bar> \<le> 1 / 100
   \<and> validate_total_amount_double sample_builtins event_total_0_02 = []
   \<and> validate_total_amount_double sample_builtins test_event = []"
  by code_simp

section \<open>Properties of the payment processor\<close>

lemma random_choice_mem: "xs \<noteq> [] \<Longrightarrow> random_choice rt xs \<in> set xs"
  by (simp add: random_choice_def)

text \<open>
  Claim C9. For every transaction identifier (a string) and amount, \<open>refund_payment\<close>
  returns a result whose \<open>status\<close> is \<open>refunded\<close>, whose \<open>refundId\<close> is \<open>ref-\<close>
  followed by the identifier without its first four characters (so \<open>txn-\<close> followed by
  a suffix becomes \<open>ref-\<close> followed by the same suffix), whose
  \<open>originalTransactionId\<close> is the identifier and whose \<open>amount\<close> is the amount given.
  The function has no failing path: its result is always this dictionary.
\<close>

theorem refund_payment_result:
  "map_of (refund_payment rt transaction_id amount) ''status'' = Some (JStr ''refunded'')
   \<and> map_of (refund_payment rt transaction_id amount) ''refundId''
         = Some (JStr (''ref-'' @ drop 4 transaction_id))
   \<and> map_of (refund_payment rt (''txn-'' @ sfx) amount) ''refundId''
         = Some (JStr (''ref-'' @ sfx))
   \<and> map_of (refund_payment rt transaction_id amount) ''originalTransactionId''
         = Some (JStr transaction_id)
   \<and> map_of (refund_payment rt transaction_id amount) ''amount'' = Some amount"
  by (simp add: refund_payment_def)

text \<open>
  Claim C4. Every payment result that \<open>process_payment\<close> produces has a \<open>status\<close> that
  is one of the two outcomes (\<open>success\<close>, the specification's "succeeded", and
  \<open>failed\<close>); it has a \<open>failureReason\<close> field if and only if the status is \<open>failed\<close>;
  and the reason is then one of the five fixed reasons.
\<close>

theorem process_payment_result_shape:
  assumes "process_payment bi rt order_id user_id amount = Inr r"
  shows "(map_of r ''status'' = Some (JStr ''success'')
            \<or> map_of r ''status'' = Some (JStr ''failed''))
    \<and> (map_of r ''failureReason'' \<noteq> None \<longleftrightarrow> map_of r ''status'' = Some (JStr ''failed''))
    \<and> (map_of r ''status'' = Some (JStr ''failed'') \<longrightarrow>
          (\<exists>reason \<in> {''Insufficient funds'', ''Card declined'', ''Payment gateway timeout'',
                         ''Invalid card details'', ''Bank authorization failed''}.
             map_of r ''failureReason'' = Some (JStr reason)))"
proof (cases "random_value rt < 90 / 100")
  case True
  with assms show ?thesis
    by (auto simp: process_payment_def split: sum.splits)
next
  case False
  have "random_choice rt failure_reasons \<in> set failure_reasons"
    by (rule random_choice_mem) (simp add: failure_reasons_def)
  then have mem: "random_choice rt failure_reasons
      \<in> {''Insufficient funds'', ''Card declined'', ''Payment gateway timeout'',
          ''Invalid card details'', ''Bank authorization failed''}"
    by (simp add: failure_reasons_def)
  from False assms
  have r: "r = [(''status'', JStr ''failed''),
                (''transactionId'', JStr (generate_transaction_id bi rt order_id user_id)),
                (''processedAt'', JStr (utcnow_isoformat rt @ ''Z'')),
                (''provider'', JStr ''mock-payment-gateway''),
                (''message'', JStr (''Payment failed: '' @ random_choice rt failure_reasons)),
                (''failureReason'', JStr (random_choice rt failure_reasons)),
                (''amount'', amount),
                (''currency'', JStr ''USD'')]"
    by (auto simp: process_payment_def Let_def)
  show ?thesis using mem unfolding r by simp
qed

theorem process_payment_result_shape_witness:
  "process_payment sample_builtins (sample_runtime (95 / 100) 7) (JStr ''order-test-001'')
      (JStr ''user-123'') (JFloat (5998 / 100))
     = Inr [(''status'', JStr ''failed''),
            (''transactionId'', JStr ''txn-0123456789abcdef''),
            (''processedAt'', JStr ''2024-01-16T10:00:00Z''),
            (''provider'', JStr ''mock-payment-gateway''),
            (''message'', JStr ''Payment failed: Payment gateway timeout''),
            (''failureReason'', JStr ''Payment gateway timeout''),
            (''amount'', JFloat (5998 / 100)),
            (''currency'', JStr ''USD'')]
   \<and> map_of [(''status'', JStr ''failed''),
            (''transactionId'', JStr ''txn-0123456789abcdef''),
            (''processedAt'', JStr ''2024-01-16T10:00:00Z''),
            (''provider'', JStr ''mock-payment-gateway''),
            (''message'', JStr ''Payment failed: Payment gateway timeout''),
            (''failureReason'', JStr ''Payment gateway timeout''),
            (''amount'', JFloat (5998 / 100)),
            (''currency'', JStr ''USD'')] ''failureReason'' \<noteq> None"
proof -
  have run: "process_payment sample_builtins (sample_runtime (95 / 100) 7)
      (JStr ''order-test-001'') (JStr ''user-123'') (JFloat (5998 / 100))
     = Inr [(''status'', JStr ''failed''),
            (''transactionId'', JStr ''txn-0123456789abcdef''),
            (''processedAt'', JStr ''2024-01-16T10:00:00Z''),
            (''provider'', JStr ''mock-payment-gateway''),
            (''message'', JStr ''Payment failed: Payment gateway timeout''),
            (''failureReason'', JStr ''Payment gateway timeout''),
            (''amount'', JFloat (5998 / 100)),
            (''currency'', JStr ''USD'')]"
    by (simp add: process_payment_def sample_runtime_def sample_builtins_def Let_def
        generate_transaction_id_def random_choice_def failure_reasons_def)
  from process_payment_result_shape [OF run] run show ?thesis by simp
qed

section \<open>The handlers at the stage boundary\<close>

lemma update_append_new:
  "k \<notin> fst ` set al \<Longrightarrow> AList.update k v al = al @ [(k, v)]"
  by (induction al) auto

lemma update_filter_other:
  "filter (\<lambda>p. fst p \<noteq> k) (AList.update k v al) = filter (\<lambda>p. fst p \<noteq> k) al"
  by (induction al) auto

lemma validate_order_lambda_handler_cases:
  "validate_order_lambda_handler tbl bi event context =
     (case fst (run_validation tbl bi event) of
        Inl e \<Rightarrow> Inl (Reraised e)
      | Inr errs \<Rightarrow>
          if errs = []
          then Inr (AList.update ''validationResult'' (validation_result bi context []) event)
          else Inl (RaisedValueError
                 (''Order validation failed: '' @ join '', '' (map (render bi) errs))))"
  by (simp add: validate_order_lambda_handler_def Let_def split: sum.splits)

lemma process_payment_status:
  assumes "process_payment bi rt order_id user_id amount = Inr r"
  shows "map_of r ''status'' = Some (JStr (if random_value rt < 90 / 100 then ''success'' else ''failed''))"
    and "\<exists>m. map_of r ''message'' = Some (JStr m)"
  using assms by (auto simp: process_payment_def Let_def split: if_splits sum.splits)

lemma process_payment_lambda_handler_cases:
  "process_payment_lambda_handler bi rt event =
     (case process_payment bi rt (dict_get event ''orderId'' JNull)
             (dict_get event ''userId'' JNull) (dict_get event ''totalAmount'' (JInt 0)) of
        Inl e \<Rightarrow> Inl (Reraised e)
      | Inr r \<Rightarrow>
          if map_of r ''status'' = Some (JStr ''success'')
          then Inr (AList.update ''paymentResult'' (JObj r) event)
          else Inl (RaisedValueError (''Payment failed: '' @ py_str bi (dict_get r ''message'' JNull))))"
proof (cases "process_payment bi rt (dict_get event ''orderId'' JNull)
             (dict_get event ''userId'' JNull) (dict_get event ''totalAmount'' (JInt 0))")
  case (Inl e)
  then show ?thesis by (simp add: process_payment_lambda_handler_def)
next
  case (Inr r)
  from process_payment_status [OF Inr] obtain m where
    st: "map_of r ''status'' = Some (JStr (if random_value rt < 90 / 100 then ''success'' else ''failed''))"
    and m: "map_of r ''message'' = Some (JStr m)" by blast
  have msg: "dict_get r ''message'' JNull = JStr m" by (simp add: dict_get_def m)
  show ?thesis
    by (simp add: process_payment_lambda_handler_def Inr st m msg)
qed


text \<open>
  Claim C7. Once the validator has computed its list of validation errors, its handler
  raises (its own \<open>ValueError\<close>, with the joined messages) exactly when the list is not
  empty, so every envelope it returns has \<open>isValid\<close> true and no errors. Once the
  gateway has produced a payment result, the payment handler raises exactly when the
  status is \<open>failed\<close>, so every envelope it returns carries a payment result of status
  \<open>success\<close>. (An exception from below, which leaves no error list or payment result,
  is re-raised as it is.)
\<close>

theorem handlers_raise_iff_rejected:
  "(\<forall>errs. fst (run_validation tbl bi event) = Inr errs \<longrightarrow>
        (isl (validate_order_lambda_handler tbl bi event context) \<longleftrightarrow> errs \<noteq> [])
      \<and> (errs \<noteq> [] \<longrightarrow>
            validate_order_lambda_handler tbl bi event context
              = Inl (RaisedValueError
                  (''Order validation failed: '' @ join '', '' (map (render bi) errs)))))
   \<and> (\<forall>response. validate_order_lambda_handler tbl bi event context = Inr response \<longrightarrow>
        fst (run_validation tbl bi event) = Inr []
      \<and> (\<exists>vr. map_of response ''validationResult'' = Some (JObj vr)
              \<and> map_of vr ''isValid'' = Some (JBool True)
              \<and> map_of vr ''errors'' = Some (JList [])))
   \<and> (\<forall>r. process_payment bi rt (dict_get pevent ''orderId'' JNull)
               (dict_get pevent ''userId'' JNull) (dict_get pevent ''totalAmount'' (JInt 0)) = Inr r
         \<longrightarrow> (isl (process_payment_lambda_handler bi rt pevent)
                \<longleftrightarrow> map_of r ''status'' = Some (JStr ''failed''))
           \<and> (map_of r ''status'' = Some (JStr ''failed'') \<longleftrightarrow> \<not> random_value rt < 90 / 100))
   \<and> (\<forall>response. process_payment_lambda_handler bi rt pevent = Inr response \<longrightarrow>
        (\<exists>pr. map_of response ''paymentResult'' = Some (JObj pr)
              \<and> map_of pr ''status'' = Some (JStr ''success'')))"
proof (intro conjI allI impI)
  fix errs assume "fst (run_validation tbl bi event) = Inr errs"
  then show "isl (validate_order_lambda_handler tbl bi event context) \<longleftrightarrow> errs \<noteq> []"
    by (simp add: validate_order_lambda_handler_cases)
next
  fix errs assume "fst (run_validation tbl bi event) = Inr errs" "errs \<noteq> []"
  then show "validate_order_lambda_handler tbl bi event context
              = Inl (RaisedValueError
                  (''Order validation failed: '' @ join '', '' (map (render bi) errs)))"
    by (simp add: validate_order_lambda_handler_cases)
next
  fix response assume "validate_order_lambda_handler tbl bi event context = Inr response"
  then show "fst (run_validation tbl bi event) = Inr []"
    by (auto simp: validate_order_lambda_handler_cases split: sum.splits if_splits)
next
  fix response assume "validate_order_lambda_handler tbl bi event context = Inr response"
  then have "response = AList.update ''validationResult'' (validation_result bi context []) event"
    by (auto simp: validate_order_lambda_handler_cases split: sum.splits if_splits)
  then have "map_of response ''validationResult'' = Some (validation_result bi context [])"
    by (simp add: update_conv')
  then show "\<exists>vr. map_of response ''validationResult'' = Some (JObj vr)
              \<and> map_of vr ''isValid'' = Some (JBool True)
              \<and> map_of vr ''errors'' = Some (JList [])"
    by (simp add: validation_result_def)
next
  fix r
  assume r: "process_payment bi rt (dict_get pevent ''orderId'' JNull)
               (dict_get pevent ''userId'' JNull) (dict_get pevent ''totalAmount'' (JInt 0)) = Inr r"
  note st = process_payment_status(1) [OF r]
  show "isl (process_payment_lambda_handler bi rt pevent)
          \<longleftrightarrow> map_of r ''status'' = Some (JStr ''failed'')"
    by (simp add: process_payment_lambda_handler_cases r st)
  show "map_of r ''status'' = Some (JStr ''failed'') \<longleftrightarrow> \<not> random_value rt < 90 / 100"
    by (simp add: st)
next
  fix response assume h: "process_payment_lambda_handler bi rt pevent = Inr response"
  then obtain r where
    st: "map_of r ''status'' = Some (JStr ''success'')"
    and resp: "response = AList.update ''paymentResult'' (JObj r) pevent"
    by (auto simp: process_payment_lambda_handler_cases split: sum.splits if_splits)
  from resp have "map_of response ''paymentResult'' = Some (JObj r)"
    by (simp add: update_conv')
  with st show "\<exists>pr. map_of response ''paymentResult'' = Some (JObj pr)
              \<and> map_of pr ''status'' = Some (JStr ''success'')"
    by blast
qed


lemma run_validation_test_event:
  "run_validation sample_table sample_builtins test_event = (Inr [], [JStr ''prod-001''])"
  by (simp add: run_validation_def test_event_def eval_defs)

lemma run_validation_event_wrong_total:
  "run_validation sample_table sample_builtins event_wrong_total
     = (Inr [TotalAmountMismatch (5998 / 100) (6010 / 100)], [JStr ''prod-001''])"
  by (simp add: run_validation_def event_wrong_total_def eval_defs)

theorem handlers_raise_iff_rejected_witness:
  "isl (validate_order_lambda_handler sample_table sample_builtins event_wrong_total sample_context)
   \<and> validate_order_lambda_handler sample_table sample_builtins event_wrong_total sample_context
       = Inl (RaisedValueError
           ''Order validation failed: Total amount mismatch: expected 59.98, received 60.10'')
   \<and> \<not> isl (validate_order_lambda_handler sample_table sample_builtins test_event sample_context)
   \<and> isl (process_payment_lambda_handler sample_builtins (sample_runtime (95 / 100) 7) test_event)
   \<and> \<not> isl (process_payment_lambda_handler sample_builtins (sample_runtime (1 / 2) 7) test_event)"
proof -
  have a: "fst (run_validation sample_table sample_builtins event_wrong_total)
             = Inr [TotalAmountMismatch (5998 / 100) (6010 / 100)]"
    by (simp add: run_validation_event_wrong_total)
  have b: "fst (run_validation sample_table sample_builtins test_event) = Inr []"
    by (simp add: run_validation_test_event)
  have c: "process_payment sample_builtins (sample_runtime (95 / 100) 7)
             (dict_get test_event ''orderId'' JNull) (dict_get test_event ''userId'' JNull)
             (dict_get test_event ''totalAmount'' (JInt 0))
           = Inr [(''status'', JStr ''failed''),
            (''transactionId'', JStr ''txn-0123456789abcdef''),
            (''processedAt'', JStr ''2024-01-16T10:00:00Z''),
            (''provider'', JStr ''mock-payment-gateway''),
            (''message'', JStr ''Payment failed: Payment gateway timeout''),
            (''failureReason'', JStr ''Payment gateway timeout''),
            (''amount'', JFloat (5998 / 100)),
            (''currency'', JStr ''USD'')]"
    by (simp add: process_payment_def sample_runtime_def sample_builtins_def Let_def
        generate_transaction_id_def random_choice_def failure_reasons_def test_event_def
        dict_get_def)
  have d: "process_payment sample_builtins (sample_runtime (1 / 2) 7)
             (dict_get test_event ''orderId'' JNull) (dict_get test_event ''userId'' JNull)
             (dict_get test_event ''totalAmount'' (JInt 0))
           = Inr [(''status'', JStr ''success''),
            (''transactionId'', JStr ''txn-0123456789abcdef''),
            (''processedAt'', JStr ''2024-01-16T10:00:00Z''),
            (''provider'', JStr ''mock-payment-gateway''),
            (''message'', JStr ''Payment of $59.98 processed successfully''),
            (''amount'', JFloat (5998 / 100)),
            (''currency'', JStr ''USD'')]"
    by (simp add: process_payment_def sample_runtime_def sample_builtins_def Let_def
        generate_transaction_id_def test_event_def dict_get_def)
  note va = handlers_raise_iff_rejected
    [of sample_table sample_builtins event_wrong_total sample_context,
      THEN conjunct1, rule_format, OF a]
  note vb = handlers_raise_iff_rejected
    [of sample_table sample_builtins test_event sample_context,
      THEN conjunct1, rule_format, OF b]
  note pc = handlers_raise_iff_rejected
    [of _ sample_builtins _ _ "sample_runtime (95 / 100) 7" test_event,
      THEN conjunct2, THEN conjunct2, THEN conjunct1, rule_format, OF c]
  note pd = handlers_raise_iff_rejected
    [of _ sample_builtins _ _ "sample_runtime (1 / 2) 7" test_event,
      THEN conjunct2, THEN conjunct2, THEN conjunct1, rule_format, OF d]
  have e: "validate_order_lambda_handler sample_table sample_builtins event_wrong_total
             sample_context
       = Inl (RaisedValueError
           ''Order validation failed: Total amount mismatch: expected 59.98, received 60.10'')"
    using va by (simp add: sample_builtins_def)
  from va vb pc pd e show ?thesis by simp
qed

text \<open>
  Claim C8, as amended. The envelope a stage returns is its input with the stage's result
  key set (\<open>validationResult\<close> for the validator, \<open>paymentResult\<close> for the payment
  processor): every entry under another key is unchanged and in its place; when the input
  does not carry the key, the output is the input with that one key appended; when the
  input already carries it, the keys stay as they are and the value under the key is
  replaced by the new result.
\<close>

theorem handlers_set_their_result_key:
  "(\<forall>response. validate_order_lambda_handler tbl bi event context = Inr response \<longrightarrow>
        filter (\<lambda>p. fst p \<noteq> ''validationResult'') response
          = filter (\<lambda>p. fst p \<noteq> ''validationResult'') event
      \<and> (\<forall>k. k \<noteq> ''validationResult'' \<longrightarrow> map_of response k = map_of event k)
      \<and> map_of response ''validationResult'' = Some (validation_result bi context [])
      \<and> (''validationResult'' \<notin> fst ` set event \<longrightarrow>
            response = event @ [(''validationResult'', validation_result bi context [])])
      \<and> (''validationResult'' \<in> fst ` set event \<longrightarrow> map fst response = map fst event))
   \<and> (\<forall>response. process_payment_lambda_handler bi rt pevent = Inr response \<longrightarrow>
        (\<exists>r. process_payment bi rt (dict_get pevent ''orderId'' JNull)
                (dict_get pevent ''userId'' JNull) (dict_get pevent ''totalAmount'' (JInt 0)) = Inr r
           \<and> filter (\<lambda>p. fst p \<noteq> ''paymentResult'') response
               = filter (\<lambda>p. fst p \<noteq> ''paymentResult'') pevent
           \<and> (\<forall>k. k \<noteq> ''paymentResult'' \<longrightarrow> map_of response k = map_of pevent k)
           \<and> map_of response ''paymentResult'' = Some (JObj r)
           \<and> (''paymentResult'' \<notin> fst ` set pevent \<longrightarrow>
                 response = pevent @ [(''paymentResult'', JObj r)])
           \<and> (''paymentResult'' \<in> fst ` set pevent \<longrightarrow> map fst response = map fst pevent)))"
proof (intro conjI allI impI)
  fix response assume "validate_order_lambda_handler tbl bi event context = Inr response"
  then have resp:
    "response = AList.update ''validationResult'' (validation_result bi context []) event"
    by (auto simp: validate_order_lambda_handler_cases split: sum.splits if_splits)
  show "filter (\<lambda>p. fst p \<noteq> ''validationResult'') response
          = filter (\<lambda>p. fst p \<noteq> ''validationResult'') event"
    unfolding resp by (rule update_filter_other)
  show "map_of response ''validationResult'' = Some (validation_result bi context [])"
    unfolding resp by (simp add: update_conv')
  { fix k :: string assume "k \<noteq> ''validationResult''"
    then show "map_of response k = map_of event k"
      unfolding resp by (simp add: update_conv') }
  { assume "''validationResult'' \<notin> fst ` set event"
    then show "response = event @ [(''validationResult'', validation_result bi context [])]"
      unfolding resp by (rule update_append_new) }
  { assume "''validationResult'' \<in> fst ` set event"
    then show "map fst response = map fst event"
      unfolding resp by (simp add: update_keys) }
next
  fix response assume "process_payment_lambda_handler bi rt pevent = Inr response"
  then obtain r where
    r: "process_payment bi rt (dict_get pevent ''orderId'' JNull)
                (dict_get pevent ''userId'' JNull) (dict_get pevent ''totalAmount'' (JInt 0)) = Inr r"
    and resp: "response = AList.update ''paymentResult'' (JObj r) pevent"
    by (auto simp: process_payment_lambda_handler_cases split: sum.splits if_splits)
  have 1: "filter (\<lambda>p. fst p \<noteq> ''paymentResult'') response
               = filter (\<lambda>p. fst p \<noteq> ''paymentResult'') pevent"
    unfolding resp by (rule update_filter_other)
  have 2: "\<forall>k. k \<noteq> ''paymentResult'' \<longrightarrow> map_of response k = map_of pevent k"
    unfolding resp by (simp add: update_conv')
  have 3: "map_of response ''paymentResult'' = Some (JObj r)"
    unfolding resp by (simp add: update_conv')
  have 4: "''paymentResult'' \<notin> fst ` set pevent \<longrightarrow>
                 response = pevent @ [(''paymentResult'', JObj r)]"
    unfolding resp by (simp add: update_append_new)
  have 5: "''paymentResult'' \<in> fst ` set pevent \<longrightarrow> map fst response = map fst pevent"
    unfolding resp by (simp add: update_keys)
  from r 1 2 3 4 5
  show "\<exists>r. process_payment bi rt (dict_get pevent ''orderId'' JNull)
                (dict_get pevent ''userId'' JNull) (dict_get pevent ''totalAmount'' (JInt 0)) = Inr r
           \<and> filter (\<lambda>p. fst p \<noteq> ''paymentResult'') response
               = filter (\<lambda>p. fst p \<noteq> ''paymentResult'') pevent
           \<and> (\<forall>k. k \<noteq> ''paymentResult'' \<longrightarrow> map_of response k = map_of pevent k)
           \<and> map_of response ''paymentResult'' = Some (JObj r)
           \<and> (''paymentResult'' \<notin> fst ` set pevent \<longrightarrow>
                 response = pevent @ [(''paymentResult'', JObj r)])
           \<and> (''paymentResult'' \<in> fst ` set pevent \<longrightarrow> map fst response = map fst pevent)"
    by blast
qed


theorem handlers_set_their_result_key_witness:
  "validate_order_lambda_handler sample_table sample_builtins test_event sample_context
     = Inr (test_event @
         [(''validationResult'',
           JObj [(''isValid'', JBool True), (''errors'', JList []),
                 (''validatedAt'', JStr ''test-request-123''),
                 (''validatedBy'', JStr ''test-validate-order'')])])
   \<and> map_of (AList.update ''validationResult'' (validation_result sample_builtins sample_context [])
        event_revalidated) ''items'' = map_of event_revalidated ''items''
   \<and> map fst (AList.update ''validationResult''
        (validation_result sample_builtins sample_context []) event_revalidated)
       = map fst event_revalidated"
proof -
  have run: "fst (run_validation sample_table sample_builtins test_event) = Inr []"
    by (simp add: run_validation_test_event)
  have ret: "validate_order_lambda_handler sample_table sample_builtins test_event sample_context
     = Inr (AList.update ''validationResult''
              (validation_result sample_builtins sample_context []) test_event)"
    by (simp add: validate_order_lambda_handler_cases run)
  have fresh: "''validationResult'' \<notin> fst ` set test_event"
    by (simp add: test_event_def)
  have run2: "fst (run_validation sample_table sample_builtins event_revalidated) = Inr []"
    by (simp add: run_validation_def event_revalidated_def eval_defs)
  have ret2: "validate_order_lambda_handler sample_table sample_builtins event_revalidated
                sample_context
     = Inr (AList.update ''validationResult''
              (validation_result sample_builtins sample_context []) event_revalidated)"
    by (simp add: validate_order_lambda_handler_cases run2)
  have there: "''validationResult'' \<in> fst ` set event_revalidated"
    by (simp add: event_revalidated_def)
  note w1 = handlers_set_their_result_key
    [of sample_table sample_builtins test_event sample_context,
      THEN conjunct1, rule_format, OF ret]
  note w2 = handlers_set_their_result_key
    [of sample_table sample_builtins event_revalidated sample_context,
      THEN conjunct1, rule_format, OF ret2]
  have a: "AList.update ''validationResult''
              (validation_result sample_builtins sample_context []) test_event
            = test_event @
                [(''validationResult'', validation_result sample_builtins sample_context [])]"
    using w1 fresh by blast
  have b: "map_of (AList.update ''validationResult''
              (validation_result sample_builtins sample_context []) event_revalidated) ''items''
            = map_of event_revalidated ''items''"
    using w2 by simp
  have c: "map fst (AList.update ''validationResult''
              (validation_result sample_builtins sample_context []) event_revalidated)
            = map fst event_revalidated"
    using w2 there by blast
  from ret a b c show ?thesis
    by (simp add: validation_result_def sample_context_def)
qed

text \<open>
  The claim as stated ("exactly one new key appended", no result field overwritten) fails
  on an envelope that already carries a \<open>validationResult\<close>: the output has the five
  keys of the input, and the old value is gone.
\<close>

theorem handlers_set_their_result_key_counterexample:
  "validate_order_lambda_handler sample_table sample_builtins event_revalidated sample_context
     = Inr [(''orderId'', JStr ''order-test-001''),
            (''userId'', JStr ''user-123''),
            (''items'', JList [JObj [(''productId'', JStr ''prod-001''), (''quantity'', JInt 2),
                                     (''price'', JFloat (2999 / 100))]]),
            (''totalAmount'', JFloat (5998 / 100)),
            (''validationResult'',
             JObj [(''isValid'', JBool True), (''errors'', JList []),
                   (''validatedAt'', JStr ''test-request-123''),
                   (''validatedBy'', JStr ''test-validate-order'')])]
   \<and> length event_revalidated = 5
   \<and> map_of event_revalidated ''validationResult'' = Some (JStr ''stale'')"
proof -
  have run2: "fst (run_validation sample_table sample_builtins event_revalidated) = Inr []"
    by (simp add: run_validation_def event_revalidated_def eval_defs)
  show ?thesis
    by (simp add: validate_order_lambda_handler_cases run2)
       (simp add: event_revalidated_def validation_result_def sample_context_def)
qed

end
